theory Spec2Isabelle
  imports Main "HOL-Library.Sublist"
begin

section \<open>Strings of the host language\<close>

text \<open>
  A TypeScript string is a sequence of UTF-16 code units. A password and every message
  is modelled as the list of its code units, each a natural number (\<open>charCodeAt\<close>
  returns exactly this number). \<open>str\<close> writes a Basic Latin literal as such a list.
\<close>

type_synonym jsstring = "nat list"

definition str :: "string \<Rightarrow> jsstring" where
  "str s = map of_char s"

text \<open>\<open>String.prototype.includes\<close>: does \<open>sub\<close> occur in \<open>s\<close> as a contiguous run?\<close>

fun str_includes :: "jsstring \<Rightarrow> jsstring \<Rightarrow> bool" where
  "str_includes [] sub = (sub = [])"
| "str_includes (c # cs) sub = (prefix sub (c # cs) \<or> str_includes cs sub)"

text \<open>Number to string conversion of a template literal, for a length (decimal digits).\<close>

fun toString10 :: "nat \<Rightarrow> jsstring" where
  "toString10 n = (if n < 10 then [48 + n] else toString10 (n div 10) @ [48 + n mod 10])"

text \<open>
  \<open>String.prototype.toLowerCase\<close> belongs to the host, not to the repository, and its
  Unicode tables are not modelled: every function that calls it takes it as the
  parameter \<open>lc\<close>, and every general theorem holds for any such function. On a string
  of Basic Latin characters the host function is the one below, which the concrete
  evaluations use.
\<close>

definition toLowerCase_ascii :: "jsstring \<Rightarrow> jsstring" where
  "toLowerCase_ascii s = map (\<lambda>c. if 65 \<le> c \<and> c \<le> 90 then c + 32 else c) s"

text \<open>
  The regular expressions of the source have no flags and test for one character of a
  class anywhere in the string. The classes, on code units:
  \<open>[a-z]\<close> is 97..122, \<open>[A-Z]\<close> is 65..90, \<open>\d\<close> is 48..57.
\<close>

definition regex_test :: "(nat \<Rightarrow> bool) \<Rightarrow> jsstring \<Rightarrow> bool" where
  "regex_test cls s = (\<exists>c \<in> set s. cls c)"

definition class_lower :: "nat \<Rightarrow> bool" where
  "class_lower c = (97 \<le> c \<and> c \<le> 122)"

definition class_upper :: "nat \<Rightarrow> bool" where
  "class_upper c = (65 \<le> c \<and> c \<le> 90)"

definition class_digit :: "nat \<Rightarrow> bool" where
  "class_digit c = (48 \<le> c \<and> c \<le> 57)"

text \<open>
  The class of \<open>hasSpecialChars\<close>, in the order the source lists it:
  ! @ # $ % ^ & * ( ) _ + - = [ ] { } ; ' : " \ | , . < > / ?
\<close>

definition class_special :: "nat \<Rightarrow> bool" where
  "class_special c = (c \<in> set [33, 64, 35, 36, 37, 94, 38, 42, 40, 41, 95, 43, 45, 61,
      91, 93, 123, 125, 59, 39, 58, 34, 92, 124, 44, 46, 60, 62, 47, 63])"

text \<open>The class \<open>[^a-zA-Z0-9]\<close> of \<open>checkCharacterVariety\<close>.\<close>

definition class_non_alnum :: "nat \<Rightarrow> bool" where
  "class_non_alnum c = (\<not> (class_lower c \<or> class_upper c \<or> class_digit c))"

section \<open>Validators.ts\<close>

definition WEAK_PASSWORDS :: "jsstring list" where
  "WEAK_PASSWORDS = map str
    [''password'', ''123456'', ''12345678'', ''123456789'', ''qwerty'',
     ''abc123'', ''password1'', ''admin'', ''letmein'', ''welcome'',
     ''monkey'', ''football'', ''iloveyou'', ''123123'', ''1234'',
     ''12345'', ''1234567'', ''sunshine'', ''master'', ''hello'',
     ''charlie'', ''aa123456'', ''donald'', ''password123'', ''qwerty123'',
     ''admin123'', ''pass'', ''test'', ''guest'', ''temp'', ''user'']"

definition SEQUENTIAL_PATTERNS :: "jsstring list" where
  "SEQUENTIAL_PATTERNS = map str
    [''12345'', ''23456'', ''34567'', ''45678'', ''56789'', ''67890'',
     ''abcdef'', ''bcdefg'', ''cdefgh'', ''defghi'', ''efghij'', ''fghijk'',
     ''ghijkl'', ''hijklm'', ''ijklmn'', ''jklmno'', ''klmnop'', ''lmnopq'',
     ''mnopqr'', ''nopqrs'', ''opqrst'', ''pqrstu'', ''qrstuv'', ''rstuvw'',
     ''stuvwx'', ''tuvwxy'', ''uvwxyz'']"

definition checkLength :: "jsstring \<Rightarrow> int" where
  "checkLength password =
     (if length password = 0 then 0
      else if length password < 6 then 5
      else if length password < 8 then 10
      else if length password < 12 then 20
      else 30)"

definition hasLowercase :: "jsstring \<Rightarrow> int" where
  "hasLowercase password = (if regex_test class_lower password then 10 else 0)"

definition hasUppercase :: "jsstring \<Rightarrow> int" where
  "hasUppercase password = (if regex_test class_upper password then 10 else 0)"

definition hasNumbers :: "jsstring \<Rightarrow> int" where
  "hasNumbers password = (if regex_test class_digit password then 10 else 0)"

definition hasSpecialChars :: "jsstring \<Rightarrow> int" where
  "hasSpecialChars password = (if regex_test class_special password then 15 else 0)"

text \<open>
  The loop of \<open>checkRepeatingChars\<close>, from index \<open>i\<close> with the running \<open>penalty\<close> and
  \<open>repeatCount\<close>. It starts at 1, so \<open>i - 1\<close> is an index of the string.
\<close>

function repeatingLoop :: "jsstring \<Rightarrow> nat \<Rightarrow> int \<Rightarrow> nat \<Rightarrow> int" where
  "repeatingLoop password i penalty repeatCount =
     (if i < length password then
        (if password ! i = password ! (i - 1) then
           (if repeatCount + 1 \<ge> 3
            then repeatingLoop password (i + 1) (penalty + 5) (repeatCount + 1)
            else repeatingLoop password (i + 1) penalty (repeatCount + 1))
         else repeatingLoop password (i + 1) penalty 1)
      else penalty)"
  by pat_completeness auto
termination
  by (relation "measure (\<lambda>(password, i, penalty, repeatCount). length password - i)") auto

declare repeatingLoop.simps [simp del]

definition checkRepeatingChars :: "jsstring \<Rightarrow> int" where
  "checkRepeatingChars password =
     (if length password < 3 then 0
      else min (repeatingLoop password 1 0 1) 15)"

text \<open>
  The second loop of \<open>checkWeakPassword\<close>: the first listed password that the lowered
  password contains and that has at least 4 characters returns 15; none returns 0.
\<close>

fun weakLoop :: "jsstring list \<Rightarrow> jsstring \<Rightarrow> int" where
  "weakLoop [] lowerPassword = 0"
| "weakLoop (weakPass # rest) lowerPassword =
     (if str_includes lowerPassword weakPass \<and> length weakPass \<ge> 4 then 15
      else weakLoop rest lowerPassword)"

definition checkWeakPassword :: "(jsstring \<Rightarrow> jsstring) \<Rightarrow> jsstring \<Rightarrow> int" where
  "checkWeakPassword lc password =
     (let lowerPassword = lc password in
      if lowerPassword \<in> set WEAK_PASSWORDS then 20
      else weakLoop WEAK_PASSWORDS lowerPassword)"

text \<open>The first loop of \<open>checkSequentialChars\<close>: 10 for every listed pattern contained.\<close>

fun patternLoop :: "jsstring list \<Rightarrow> jsstring \<Rightarrow> int \<Rightarrow> int" where
  "patternLoop [] lowerPassword penalty = penalty"
| "patternLoop (pattern # rest) lowerPassword penalty =
     (if str_includes lowerPassword pattern
      then patternLoop rest lowerPassword (penalty + 10)
      else patternLoop rest lowerPassword penalty)"

text \<open>
  The second loop: the first index \<open>i < length - 2\<close> whose three character codes rise
  by one or fall by one adds 5 and leaves the loop. The bound and the codes are
  numbers of the host, hence integers here: \<open>length - 2\<close> is negative on a short
  string, and \<open>charCode1 - 1\<close> is -1 for the code 0.
\<close>

function runLoop :: "jsstring \<Rightarrow> nat \<Rightarrow> int \<Rightarrow> int" where
  "runLoop password i penalty =
     (if int i < int (length password) - 2 then
        (let charCode1 = int (password ! i);
             charCode2 = int (password ! (i + 1));
             charCode3 = int (password ! (i + 2))
         in if (charCode2 = charCode1 + 1 \<and> charCode3 = charCode2 + 1) \<or>
               (charCode2 = charCode1 - 1 \<and> charCode3 = charCode2 - 1)
            then penalty + 5
            else runLoop password (i + 1) penalty)
      else penalty)"
  by pat_completeness auto
termination
  by (relation "measure (\<lambda>(password, i, penalty). length password - i)") auto

declare runLoop.simps [simp del]

definition checkSequentialChars :: "(jsstring \<Rightarrow> jsstring) \<Rightarrow> jsstring \<Rightarrow> int" where
  "checkSequentialChars lc password =
     (let lowerPassword = lc password;
          penalty = patternLoop SEQUENTIAL_PATTERNS lowerPassword 0
      in min (runLoop password 0 penalty) 15)"

definition checkCharacterVariety :: "jsstring \<Rightarrow> int" where
  "checkCharacterVariety password =
     (let hasLower = regex_test class_lower password;
          hasUpper = regex_test class_upper password;
          hasDigit = regex_test class_digit password;
          hasSpecial = regex_test class_non_alnum password;
          charTypes = [hasLower, hasUpper, hasDigit, hasSpecial];
          typeCount = length (filter (\<lambda>b. b) charTypes)
      in if typeCount = 4 then 10
         else if typeCount = 3 then 5
         else if typeCount = 2 then 2
         else 0)"

text \<open>
  The object \<open>runAllValidations\<close> returns (interface \<open>ValidationResults\<close>). Its fields
  carry the prefix \<open>v_\<close>: their source names are also the names of the evaluators.
\<close>

record ValidationResults =
  v_length :: int
  v_hasLowercase :: int
  v_hasUppercase :: int
  v_hasNumbers :: int
  v_hasSpecialChars :: int
  v_repeatingCharsPenalty :: int
  v_weakPasswordPenalty :: int
  v_sequentialCharsPenalty :: int
  v_varietyBonus :: int

definition runAllValidations :: "(jsstring \<Rightarrow> jsstring) \<Rightarrow> jsstring \<Rightarrow> ValidationResults" where
  "runAllValidations lc password =
     \<lparr> v_length = checkLength password,
       v_hasLowercase = hasLowercase password,
       v_hasUppercase = hasUppercase password,
       v_hasNumbers = hasNumbers password,
       v_hasSpecialChars = hasSpecialChars password,
       v_repeatingCharsPenalty = checkRepeatingChars password,
       v_weakPasswordPenalty = checkWeakPassword lc password,
       v_sequentialCharsPenalty = checkSequentialChars lc password,
       v_varietyBonus = checkCharacterVariety password \<rparr>"

section \<open>The result of an analysis\<close>

text \<open>
  The enum \<open>StrengthLevel\<close>, in the order of its declaration. The two variants of
  PasswordChecker.ts declare the same members with display strings in different
  languages; the members are what the code compares and returns.
\<close>

datatype StrengthLevel = EMPTY | VERY_WEAK | WEAK | MEDIUM | STRONG | VERY_STRONG

text \<open>The position of a level in the order EMPTY < VERY_WEAK < ... < VERY_STRONG.\<close>

fun level_rank :: "StrengthLevel \<Rightarrow> nat" where
  "level_rank EMPTY = 0"
| "level_rank VERY_WEAK = 1"
| "level_rank WEAK = 2"
| "level_rank MEDIUM = 3"
| "level_rank STRONG = 4"
| "level_rank VERY_STRONG = 5"

text \<open>
  The field \<open>criteria\<close> of \<open>PasswordAnalysis\<close>, with the prefix \<open>c_\<close> on the source's
  field names, and the interface \<open>PasswordAnalysis\<close> itself.
\<close>

record Criteria =
  c_length :: bool
  c_hasLowercase :: bool
  c_hasUppercase :: bool
  c_hasNumbers :: bool
  c_hasSpecialChars :: bool
  c_noRepeatingChars :: bool
  c_notWeakPassword :: bool
  c_noSequentialChars :: bool

record PasswordAnalysis =
  score :: int
  level :: StrengthLevel
  criteria :: Criteria
  feedback :: "jsstring list"
  suggestions :: "jsstring list"

text \<open>\<open>Object.values(criteria)\<close>: the eight booleans in the order of the object literal.\<close>

definition criteria_values :: "Criteria \<Rightarrow> bool list" where
  "criteria_values c =
     [c_length c, c_hasLowercase c, c_hasUppercase c, c_hasNumbers c,
      c_hasSpecialChars c, c_noRepeatingChars c, c_notWeakPassword c,
      c_noSequentialChars c]"

text \<open>
  \<open>Math.round\<close>, \<open>Math.max\<close> and \<open>Math.min\<close> act on sums and differences of the integer
  constants above, so the numbers of the host are integers here and \<open>Math.round\<close>
  returns its argument.
\<close>

definition Math_round :: "int \<Rightarrow> int" where
  "Math_round x = x"

text \<open>
  \<open>score\<close>, \<open>level\<close>, \<open>criteria\<close>, \<open>feedback\<close> and \<open>suggestions\<close> name the fields of the
  result; a parameter or local constant of the source with one of these names is
  written with a prime.
\<close>

section \<open>PasswordChecker.ts, the self-contained variant with English messages\<close>

text \<open>
  The class \<open>PasswordChecker\<close> of this variant has its rule evaluators as private static
  methods, with the weak-password list and the pattern list as local constants. Its
  members carry the suffix \<open>_en\<close>; the members of the variant that imports
  Validators.ts carry \<open>_tr\<close>.
\<close>

definition checkLength_en :: "jsstring \<Rightarrow> int" where
  "checkLength_en password =
     (if length password = 0 then 0
      else if length password < 6 then 5
      else if length password < 8 then 10
      else if length password < 12 then 20
      else 30)"

definition hasLowercase_en :: "jsstring \<Rightarrow> int" where
  "hasLowercase_en password = (if regex_test class_lower password then 10 else 0)"

definition hasUppercase_en :: "jsstring \<Rightarrow> int" where
  "hasUppercase_en password = (if regex_test class_upper password then 10 else 0)"

definition hasNumbers_en :: "jsstring \<Rightarrow> int" where
  "hasNumbers_en password = (if regex_test class_digit password then 10 else 0)"

definition hasSpecialChars_en :: "jsstring \<Rightarrow> int" where
  "hasSpecialChars_en password = (if regex_test class_special password then 15 else 0)"

function repeatingLoop_en :: "jsstring \<Rightarrow> nat \<Rightarrow> int \<Rightarrow> nat \<Rightarrow> int" where
  "repeatingLoop_en password i penalty repeatCount =
     (if i < length password then
        (if password ! i = password ! (i - 1) then
           (if repeatCount + 1 \<ge> 3
            then repeatingLoop_en password (i + 1) (penalty + 5) (repeatCount + 1)
            else repeatingLoop_en password (i + 1) penalty (repeatCount + 1))
         else repeatingLoop_en password (i + 1) penalty 1)
      else penalty)"
  by pat_completeness auto
termination
  by (relation "measure (\<lambda>(password, i, penalty, repeatCount). length password - i)") auto

declare repeatingLoop_en.simps [simp del]

definition checkRepeatingChars_en :: "jsstring \<Rightarrow> int" where
  "checkRepeatingChars_en password =
     (if length password < 3 then 0
      else min (repeatingLoop_en password 1 0 1) 15)"

text \<open>The local list \<open>weakPasswords\<close> of \<open>checkWeakPassword\<close>.\<close>

definition weakPasswords_en :: "jsstring list" where
  "weakPasswords_en = map str
    [''password'', ''123456'', ''12345678'', ''123456789'', ''qwerty'',
     ''abc123'', ''password1'', ''admin'', ''letmein'', ''welcome'',
     ''monkey'', ''football'', ''iloveyou'', ''123123'', ''1234'',
     ''12345'', ''1234567'', ''sunshine'', ''master'', ''hello'']"

fun weakLoop_en :: "jsstring list \<Rightarrow> jsstring \<Rightarrow> int" where
  "weakLoop_en [] lowerPassword = 0"
| "weakLoop_en (weakPass # rest) lowerPassword =
     (if str_includes lowerPassword weakPass \<and> length weakPass \<ge> 4 then 15
      else weakLoop_en rest lowerPassword)"

definition checkWeakPassword_en :: "(jsstring \<Rightarrow> jsstring) \<Rightarrow> jsstring \<Rightarrow> int" where
  "checkWeakPassword_en lc password =
     (let lowerPassword = lc password in
      if lowerPassword \<in> set weakPasswords_en then 20
      else weakLoop_en weakPasswords_en lowerPassword)"

text \<open>The local list \<open>sequentialPatterns\<close> of \<open>checkSequentialChars\<close>.\<close>

definition sequentialPatterns_en :: "jsstring list" where
  "sequentialPatterns_en = map str
    [''12345'', ''23456'', ''34567'', ''45678'', ''56789'', ''67890'',
     ''abcdef'', ''bcdefg'', ''cdefgh'', ''defghi'', ''efghij'',
     ''fghijk'', ''ghijkl'', ''hijklm'', ''ijklmn'', ''jklmno'',
     ''klmnop'', ''lmnopq'', ''mnopqr'', ''nopqrs'', ''opqrst'']"

fun patternLoop_en :: "jsstring list \<Rightarrow> jsstring \<Rightarrow> int \<Rightarrow> int" where
  "patternLoop_en [] lowerPassword penalty = penalty"
| "patternLoop_en (pattern # rest) lowerPassword penalty =
     (if str_includes lowerPassword pattern
      then patternLoop_en rest lowerPassword (penalty + 10)
      else patternLoop_en rest lowerPassword penalty)"

function runLoop_en :: "jsstring \<Rightarrow> nat \<Rightarrow> int \<Rightarrow> int" where
  "runLoop_en password i penalty =
     (if int i < int (length password) - 2 then
        (let charCode1 = int (password ! i);
             charCode2 = int (password ! (i + 1));
             charCode3 = int (password ! (i + 2))
         in if (charCode2 = charCode1 + 1 \<and> charCode3 = charCode2 + 1) \<or>
               (charCode2 = charCode1 - 1 \<and> charCode3 = charCode2 - 1)
            then penalty + 5
            else runLoop_en password (i + 1) penalty)
      else penalty)"
  by pat_completeness auto
termination
  by (relation "measure (\<lambda>(password, i, penalty). length password - i)") auto

declare runLoop_en.simps [simp del]

definition checkSequentialChars_en :: "(jsstring \<Rightarrow> jsstring) \<Rightarrow> jsstring \<Rightarrow> int" where
  "checkSequentialChars_en lc password =
     (let lowerPassword = lc password;
          penalty = patternLoop_en sequentialPatterns_en lowerPassword 0
      in min (runLoop_en password 0 penalty) 15)"

definition checkCharacterVariety_en :: "jsstring \<Rightarrow> int" where
  "checkCharacterVariety_en password =
     (let hasLower = regex_test class_lower password;
          hasUpper = regex_test class_upper password;
          hasDigit = regex_test class_digit password;
          hasSpecial = regex_test class_non_alnum password;
          typeCount = length (filter (\<lambda>b. b) [hasLower, hasUpper, hasDigit, hasSpecial])
      in if typeCount = 4 then 10
         else if typeCount = 3 then 5
         else if typeCount = 2 then 2
         else 0)"

definition runAllValidations_en :: "(jsstring \<Rightarrow> jsstring) \<Rightarrow> jsstring \<Rightarrow> ValidationResults" where
  "runAllValidations_en lc password =
     \<lparr> v_length = checkLength_en password,
       v_hasLowercase = hasLowercase_en password,
       v_hasUppercase = hasUppercase_en password,
       v_hasNumbers = hasNumbers_en password,
       v_hasSpecialChars = hasSpecialChars_en password,
       v_repeatingCharsPenalty = checkRepeatingChars_en password,
       v_weakPasswordPenalty = checkWeakPassword_en lc password,
       v_sequentialCharsPenalty = checkSequentialChars_en lc password,
       v_varietyBonus = checkCharacterVariety_en password \<rparr>"

text \<open>The messages, as the code units of the source's literals.\<close>

definition fb_empty_en :: jsstring where
  "fb_empty_en =
     str ''Please enter a password to analyze''"

definition sg_empty_en :: jsstring where
  "sg_empty_en =
     str ''Password should be at least 8 characters long''"

definition fb_tooShort_en :: "nat \<Rightarrow> jsstring" where
  "fb_tooShort_en n =
     str ''Password is too short ('' @ toString10 n @ str '' characters). Minimum 8 characters recommended.''"

definition fb_mediumLength_en :: "nat \<Rightarrow> jsstring" where
  "fb_mediumLength_en n =
     str ''Password is medium length ('' @ toString10 n @ str '' characters). 12+ characters is more secure.''"

definition fb_goodLength_en :: "nat \<Rightarrow> jsstring" where
  "fb_goodLength_en n =
     str ''Good password length ('' @ toString10 n @ str '' characters).''"

definition fb_noLowercase_en :: jsstring where
  "fb_noLowercase_en =
     str ''Missing lowercase letters. Add some lowercase letters (a-z).''"

definition fb_noUppercase_en :: jsstring where
  "fb_noUppercase_en =
     str ''Missing uppercase letters. Add some uppercase letters (A-Z).''"

definition fb_noNumbers_en :: jsstring where
  "fb_noNumbers_en =
     str ''Missing numbers. Add some numbers (0-9).''"

definition fb_noSpecialChars_en :: jsstring where
  "fb_noSpecialChars_en =
     str ''Missing special characters. Add some special characters (!'' @ [64, 35, 36, 37, 94, 38, 42] @ str '' etc.).''"

definition fb_repeatingChars_en :: jsstring where
  "fb_repeatingChars_en =
     str ''Contains repeating characters. Try to avoid character repetitions.''"

definition fb_weakPassword_en :: jsstring where
  "fb_weakPassword_en =
     str ''Password contains common words or patterns.''"

definition fb_sequentialChars_en :: jsstring where
  "fb_sequentialChars_en =
     str ''Contains sequential characters (like abc, 123).''"

definition fb_excellent_en :: jsstring where
  "fb_excellent_en =
     str ''Excellent! Your password meets most security criteria.''"

definition fb_goodStart_en :: jsstring where
  "fb_goodStart_en =
     str ''Good start! Your password could be stronger with more variety.''"

definition sg_header_en :: jsstring where
  "sg_header_en =
     str ''To strengthen your password:''"

definition sg_length_en :: jsstring where
  "sg_length_en =
     [8226] @ str '' Increase length to at least 12 characters''"

definition sg_lowercase_en :: jsstring where
  "sg_lowercase_en =
     [8226] @ str '' Add lowercase letters (a-z)''"

definition sg_uppercase_en :: jsstring where
  "sg_uppercase_en =
     [8226] @ str '' Add uppercase letters (A-Z)''"

definition sg_numbers_en :: jsstring where
  "sg_numbers_en =
     [8226] @ str '' Add numbers (0-9)''"

definition sg_specialChars_en :: jsstring where
  "sg_specialChars_en =
     [8226] @ str '' Add special characters (!'' @ [64, 35, 36, 37, 94, 38, 42] @ str '' etc.)''"

definition sg_repeatingChars_en :: jsstring where
  "sg_repeatingChars_en =
     [8226] @ str '' Avoid repeating the same character multiple times''"

definition sg_weakPassword_en :: jsstring where
  "sg_weakPassword_en =
     [8226] @ str '' Avoid common words and predictable patterns''"

definition sg_sequentialChars_en :: jsstring where
  "sg_sequentialChars_en =
     [8226] @ str '' Avoid sequential characters (abc, 123, etc.)''"

definition sg_goodJob_en :: jsstring where
  "sg_goodJob_en =
     str ''Good job! Your password has decent security.''"

definition sg_excellent_en :: jsstring where
  "sg_excellent_en =
     str ''Excellent! Your password is very secure.''"

definition getEmptyAnalysis_en :: PasswordAnalysis where
  "getEmptyAnalysis_en =
     \<lparr> score = 0,
       level = EMPTY,
       criteria = \<lparr> c_length = False, c_hasLowercase = False, c_hasUppercase = False,
                    c_hasNumbers = False, c_hasSpecialChars = False,
                    c_noRepeatingChars = False, c_notWeakPassword = False,
                    c_noSequentialChars = False \<rparr>,
       feedback = [fb_empty_en],
       suggestions = [sg_empty_en] \<rparr>"

definition determineStrengthLevel_en :: "int \<Rightarrow> StrengthLevel" where
  "determineStrengthLevel_en score' =
     (if score' = 0 then EMPTY
      else if score' < 20 then VERY_WEAK
      else if score' < 40 then WEAK
      else if score' < 60 then MEDIUM
      else if score' < 80 then STRONG
      else VERY_STRONG)"

text \<open>
  \<open>generateFeedback\<close> and \<open>generateSuggestions\<close> push onto an array that starts empty;
  each conditional push is the list of what it appends.
\<close>

definition generateFeedback_en :: "jsstring \<Rightarrow> Criteria \<Rightarrow> jsstring list" where
  "generateFeedback_en password criteria' =
     (if length password < 8 then [fb_tooShort_en (length password)]
      else if length password < 12 then [fb_mediumLength_en (length password)]
      else [fb_goodLength_en (length password)]) @
     (if \<not> c_hasLowercase criteria' then [fb_noLowercase_en] else []) @
     (if \<not> c_hasUppercase criteria' then [fb_noUppercase_en] else []) @
     (if \<not> c_hasNumbers criteria' then [fb_noNumbers_en] else []) @
     (if \<not> c_hasSpecialChars criteria' then [fb_noSpecialChars_en] else []) @
     (if \<not> c_noRepeatingChars criteria' then [fb_repeatingChars_en] else []) @
     (if \<not> c_notWeakPassword criteria' then [fb_weakPassword_en] else []) @
     (if \<not> c_noSequentialChars criteria' then [fb_sequentialChars_en] else []) @
     (let positiveCount = length (filter (\<lambda>b. b) (criteria_values criteria'))
      in if positiveCount \<ge> 6 then [fb_excellent_en]
         else if positiveCount \<ge> 4 then [fb_goodStart_en]
         else [])"

definition generateSuggestions_en :: "Criteria \<Rightarrow> int \<Rightarrow> jsstring list" where
  "generateSuggestions_en criteria' score' =
     (if score' < 50 then [sg_header_en] else []) @
     (if \<not> c_length criteria' then [sg_length_en] else []) @
     (if \<not> c_hasLowercase criteria' then [sg_lowercase_en] else []) @
     (if \<not> c_hasUppercase criteria' then [sg_uppercase_en] else []) @
     (if \<not> c_hasNumbers criteria' then [sg_numbers_en] else []) @
     (if \<not> c_hasSpecialChars criteria' then [sg_specialChars_en] else []) @
     (if \<not> c_noRepeatingChars criteria' then [sg_repeatingChars_en] else []) @
     (if \<not> c_notWeakPassword criteria' then [sg_weakPassword_en] else []) @
     (if \<not> c_noSequentialChars criteria' then [sg_sequentialChars_en] else []) @
     (if score' \<ge> 70 then [sg_goodJob_en] else []) @
     (if score' \<ge> 85 then [sg_excellent_en] else [])"

definition analyze_en :: "(jsstring \<Rightarrow> jsstring) \<Rightarrow> jsstring \<Rightarrow> PasswordAnalysis" where
  "analyze_en lc password =
     (if length password = 0 then getEmptyAnalysis_en
      else
        let validationResults = runAllValidations_en lc password;
            totalScore =
              v_length validationResults +
              v_hasLowercase validationResults +
              v_hasUppercase validationResults +
              v_hasNumbers validationResults +
              v_hasSpecialChars validationResults +
              v_varietyBonus validationResults;
            totalScore = totalScore -
              (v_repeatingCharsPenalty validationResults +
               v_weakPasswordPenalty validationResults +
               v_sequentialCharsPenalty validationResults);
            totalScore = max 0 (min totalScore 100);
            level' = determineStrengthLevel_en totalScore;
            criteria' =
              \<lparr> c_length = v_length validationResults \<ge> 20,
                c_hasLowercase = v_hasLowercase validationResults > 0,
                c_hasUppercase = v_hasUppercase validationResults > 0,
                c_hasNumbers = v_hasNumbers validationResults > 0,
                c_hasSpecialChars = v_hasSpecialChars validationResults > 0,
                c_noRepeatingChars = v_repeatingCharsPenalty validationResults = 0,
                c_notWeakPassword = v_weakPasswordPenalty validationResults = 0,
                c_noSequentialChars = v_sequentialCharsPenalty validationResults = 0 \<rparr>;
            feedback' = generateFeedback_en password criteria';
            suggestions' = generateSuggestions_en criteria' totalScore
        in \<lparr> score = Math_round totalScore,
             level = level',
             criteria = criteria',
             feedback = feedback',
             suggestions = suggestions' \<rparr>)"

section \<open>PasswordChecker.ts, the variant over Validators.ts with Turkish messages\<close>

text \<open>
  The class \<open>PasswordChecker\<close> of this variant calls \<open>runAllValidations\<close> of
  Validators.ts. Its \<open>generateFeedback\<close> takes the validation results as a second
  argument and never reads it.
\<close>

text \<open>The messages, as the code units of the source's literals.\<close>

definition fb_empty_tr :: jsstring where
  "fb_empty_tr =
     str ''L'' @ [252] @ str ''tfen bir parola girin''"

definition sg_empty_tr :: jsstring where
  "sg_empty_tr =
     str ''Parola uzunlu'' @ [287] @ str ''u en az 8 karakter olmal'' @ [305] @ str ''d'' @ [305] @ str ''r''"

definition fb_tooShort_tr :: "nat \<Rightarrow> jsstring" where
  "fb_tooShort_tr n =
     str ''Parolan'' @ [305] @ str ''z '' @ [231] @ str ''ok k'' @ [305] @ str ''sa ('' @ toString10 n @ str '' karakter). En az 8 karakter '' @ [246] @ str ''nerilir.''"

definition fb_mediumLength_tr :: "nat \<Rightarrow> jsstring" where
  "fb_mediumLength_tr n =
     str ''Parolan'' @ [305] @ str ''z orta uzunlukta ('' @ toString10 n @ str '' karakter). 12+ karakter daha g'' @ [252] @ str ''venlidir.''"

definition fb_goodLength_tr :: "nat \<Rightarrow> jsstring" where
  "fb_goodLength_tr n =
     str ''Parolan'' @ [305] @ str ''z yeterli uzunlukta ('' @ toString10 n @ str '' karakter).''"

definition fb_noLowercase_tr :: jsstring where
  "fb_noLowercase_tr =
     str ''K'' @ [252, 231, 252] @ str ''k harf i'' @ [231] @ str ''ermiyor. K'' @ [252, 231, 252] @ str ''k harf ekleyin.''"

definition fb_noUppercase_tr :: jsstring where
  "fb_noUppercase_tr =
     str ''B'' @ [252] @ str ''y'' @ [252] @ str ''k harf i'' @ [231] @ str ''ermiyor. B'' @ [252] @ str ''y'' @ [252] @ str ''k harf ekleyin.''"

definition fb_noNumbers_tr :: jsstring where
  "fb_noNumbers_tr =
     str ''Rakam i'' @ [231] @ str ''ermiyor. Rakam ekleyin.''"

definition fb_noSpecialChars_tr :: jsstring where
  "fb_noSpecialChars_tr =
     [214] @ str ''zel karakter i'' @ [231] @ str ''ermiyor. '' @ [214] @ str ''zel karakter ekleyin.''"

definition fb_repeatingChars_tr :: jsstring where
  "fb_repeatingChars_tr =
     str ''Tekrarlanan karakterler i'' @ [231] @ str ''eriyor. Tekrarlar'' @ [305] @ str '' azalt'' @ [305] @ str ''n.''"

definition fb_weakPassword_tr :: jsstring where
  "fb_weakPassword_tr =
     str ''Yayg'' @ [305] @ str ''n kullan'' @ [305] @ str ''lan bir parola veya benzeri i'' @ [231] @ str ''eriyor.''"

definition fb_sequentialChars_tr :: jsstring where
  "fb_sequentialChars_tr =
     str ''S'' @ [305] @ str ''ral'' @ [305] @ str '' karakterler i'' @ [231] @ str ''eriyor (abc, 123 gibi).''"

definition fb_excellent_tr :: jsstring where
  "fb_excellent_tr =
     str ''Harika! Parolan'' @ [305] @ str ''z '' @ [231] @ str ''o'' @ [287] @ str ''u g'' @ [252] @ str ''venlik kriterini kar'' @ [351, 305] @ str ''l'' @ [305] @ str ''yor.''"

definition fb_goodStart_tr :: jsstring where
  "fb_goodStart_tr =
     [304] @ str ''yi ba'' @ [351] @ str ''lang'' @ [305, 231] @ str ''! Ancak daha fazla g'' @ [252] @ str ''venlik i'' @ [231] @ str ''in geli'' @ [351] @ str ''tirilebilir.''"

definition sg_header_tr :: jsstring where
  "sg_header_tr =
     str ''Parolan'' @ [305] @ str ''z'' @ [305] @ str '' g'' @ [252, 231] @ str ''lendirmek i'' @ [231] @ str ''in a'' @ [351] @ str ''a'' @ [287, 305] @ str ''daki '' @ [246] @ str ''nerileri uygulay'' @ [305] @ str ''n:''"

definition sg_length_tr :: jsstring where
  "sg_length_tr =
     [8226] @ str '' Parola uzunlu'' @ [287] @ str ''unu en az 12 karaktere '' @ [231, 305] @ str ''kar'' @ [305] @ str ''n''"

definition sg_lowercase_tr :: jsstring where
  "sg_lowercase_tr =
     [8226] @ str '' En az bir k'' @ [252, 231, 252] @ str ''k harf ekleyin (a-z)''"

definition sg_uppercase_tr :: jsstring where
  "sg_uppercase_tr =
     [8226] @ str '' En az bir b'' @ [252] @ str ''y'' @ [252] @ str ''k harf ekleyin (A-Z)''"

definition sg_numbers_tr :: jsstring where
  "sg_numbers_tr =
     [8226] @ str '' En az bir rakam ekleyin (0-9)''"

definition sg_specialChars_tr :: jsstring where
  "sg_specialChars_tr =
     [8226] @ str '' En az bir '' @ [246] @ str ''zel karakter ekleyin (!'' @ [64, 35, 36, 37, 94, 38, 42] @ str '' gibi)''"

definition sg_repeatingChars_tr :: jsstring where
  "sg_repeatingChars_tr =
     [8226] @ str '' Ayn'' @ [305] @ str '' karakteri arka arkaya tekrarlamaktan ka'' @ [231, 305] @ str ''n'' @ [305] @ str ''n''"

definition sg_weakPassword_tr :: jsstring where
  "sg_weakPassword_tr =
     [8226] @ str '' Yayg'' @ [305] @ str ''n kullan'' @ [305] @ str ''lan kelimeler ve parolalar'' @ [305] @ str '' kullanmay'' @ [305] @ str ''n''"

definition sg_sequentialChars_tr :: jsstring where
  "sg_sequentialChars_tr =
     [8226] @ str '' S'' @ [305] @ str ''ral'' @ [305] @ str '' karakter dizilerinden ka'' @ [231, 305] @ str ''n'' @ [305] @ str ''n (abc, 123 gibi)''"

definition sg_goodJob_tr :: jsstring where
  "sg_goodJob_tr =
     str ''G'' @ [252] @ str ''zel! Parolan'' @ [305] @ str ''z iyi bir g'' @ [252] @ str ''venlik seviyesine sahip.''"

definition sg_excellent_tr :: jsstring where
  "sg_excellent_tr =
     str ''M'' @ [252] @ str ''kemmel! Parolan'' @ [305] @ str ''z '' @ [231] @ str ''ok g'' @ [252, 231] @ str ''l'' @ [252] @ str '' g'' @ [246] @ str ''r'' @ [252] @ str ''n'' @ [252] @ str ''yor.''"

definition getEmptyAnalysis_tr :: PasswordAnalysis where
  "getEmptyAnalysis_tr =
     \<lparr> score = 0,
       level = EMPTY,
       criteria = \<lparr> c_length = False, c_hasLowercase = False, c_hasUppercase = False,
                    c_hasNumbers = False, c_hasSpecialChars = False,
                    c_noRepeatingChars = False, c_notWeakPassword = False,
                    c_noSequentialChars = False \<rparr>,
       feedback = [fb_empty_tr],
       suggestions = [sg_empty_tr] \<rparr>"

definition determineStrengthLevel_tr :: "int \<Rightarrow> StrengthLevel" where
  "determineStrengthLevel_tr score' =
     (if score' = 0 then EMPTY
      else if score' < 30 then VERY_WEAK
      else if score' < 50 then WEAK
      else if score' < 70 then MEDIUM
      else if score' < 85 then STRONG
      else VERY_STRONG)"

text \<open>
  \<open>generateFeedback\<close> and \<open>generateSuggestions\<close> push onto an array that starts empty;
  each conditional push is the list of what it appends.
\<close>

definition generateFeedback_tr ::
  "jsstring \<Rightarrow> ValidationResults \<Rightarrow> Criteria \<Rightarrow> jsstring list" where
  "generateFeedback_tr password validationResults criteria' =
     (if length password < 8 then [fb_tooShort_tr (length password)]
      else if length password < 12 then [fb_mediumLength_tr (length password)]
      else [fb_goodLength_tr (length password)]) @
     (if \<not> c_hasLowercase criteria' then [fb_noLowercase_tr] else []) @
     (if \<not> c_hasUppercase criteria' then [fb_noUppercase_tr] else []) @
     (if \<not> c_hasNumbers criteria' then [fb_noNumbers_tr] else []) @
     (if \<not> c_hasSpecialChars criteria' then [fb_noSpecialChars_tr] else []) @
     (if \<not> c_noRepeatingChars criteria' then [fb_repeatingChars_tr] else []) @
     (if \<not> c_notWeakPassword criteria' then [fb_weakPassword_tr] else []) @
     (if \<not> c_noSequentialChars criteria' then [fb_sequentialChars_tr] else []) @
     (let positiveCount = length (filter (\<lambda>b. b) (criteria_values criteria'))
      in if positiveCount \<ge> 6 then [fb_excellent_tr]
         else if positiveCount \<ge> 4 then [fb_goodStart_tr]
         else [])"

definition generateSuggestions_tr :: "Criteria \<Rightarrow> int \<Rightarrow> jsstring list" where
  "generateSuggestions_tr criteria' score' =
     (if score' < 50 then [sg_header_tr] else []) @
     (if \<not> c_length criteria' then [sg_length_tr] else []) @
     (if \<not> c_hasLowercase criteria' then [sg_lowercase_tr] else []) @
     (if \<not> c_hasUppercase criteria' then [sg_uppercase_tr] else []) @
     (if \<not> c_hasNumbers criteria' then [sg_numbers_tr] else []) @
     (if \<not> c_hasSpecialChars criteria' then [sg_specialChars_tr] else []) @
     (if \<not> c_noRepeatingChars criteria' then [sg_repeatingChars_tr] else []) @
     (if \<not> c_notWeakPassword criteria' then [sg_weakPassword_tr] else []) @
     (if \<not> c_noSequentialChars criteria' then [sg_sequentialChars_tr] else []) @
     (if score' \<ge> 70 then [sg_goodJob_tr] else []) @
     (if score' \<ge> 85 then [sg_excellent_tr] else [])"

definition analyze_tr :: "(jsstring \<Rightarrow> jsstring) \<Rightarrow> jsstring \<Rightarrow> PasswordAnalysis" where
  "analyze_tr lc password =
     (if length password = 0 then getEmptyAnalysis_tr
      else
        let validationResults = runAllValidations lc password;
            totalScore =
              v_length validationResults +
              v_hasLowercase validationResults +
              v_hasUppercase validationResults +
              v_hasNumbers validationResults +
              v_hasSpecialChars validationResults +
              v_varietyBonus validationResults;
            totalScore = totalScore -
              (v_repeatingCharsPenalty validationResults +
               v_weakPasswordPenalty validationResults +
               v_sequentialCharsPenalty validationResults);
            totalScore = max 0 (min totalScore 100);
            level' = determineStrengthLevel_tr totalScore;
            criteria' =
              \<lparr> c_length = v_length validationResults \<ge> 20,
                c_hasLowercase = v_hasLowercase validationResults > 0,
                c_hasUppercase = v_hasUppercase validationResults > 0,
                c_hasNumbers = v_hasNumbers validationResults > 0,
                c_hasSpecialChars = v_hasSpecialChars validationResults > 0,
                c_noRepeatingChars = v_repeatingCharsPenalty validationResults = 0,
                c_notWeakPassword = v_weakPasswordPenalty validationResults = 0,
                c_noSequentialChars = v_sequentialCharsPenalty validationResults = 0 \<rparr>;
            feedback' = generateFeedback_tr password validationResults criteria';
            suggestions' = generateSuggestions_tr criteria' totalScore
        in \<lparr> score = totalScore,
             level = level',
             criteria = criteria',
             feedback = feedback',
             suggestions = suggestions' \<rparr>)"

section \<open>Notions of the specification\<close>

text \<open>
  The sum of the six bonuses minus the sum of the three penalties, before the clamp.
\<close>

definition rawScore :: "ValidationResults \<Rightarrow> int" where
  "rawScore v =
     (v_length v + v_hasLowercase v + v_hasUppercase v + v_hasNumbers v +
      v_hasSpecialChars v + v_varietyBonus v) -
     (v_repeatingCharsPenalty v + v_weakPasswordPenalty v + v_sequentialCharsPenalty v)"

text \<open>
  The half-open band \<open>[lower, upper)\<close> of scores of each level, for the two threshold
  tables. The band of a level starts where the band of the level before it ends, the
  first starts at 0 and the last ends after 100.
\<close>

fun band_en :: "StrengthLevel \<Rightarrow> int \<times> int" where
  "band_en EMPTY = (0, 1)"
| "band_en VERY_WEAK = (1, 20)"
| "band_en WEAK = (20, 40)"
| "band_en MEDIUM = (40, 60)"
| "band_en STRONG = (60, 80)"
| "band_en VERY_STRONG = (80, 101)"

fun band_tr :: "StrengthLevel \<Rightarrow> int \<times> int" where
  "band_tr EMPTY = (0, 1)"
| "band_tr VERY_WEAK = (1, 30)"
| "band_tr WEAK = (30, 50)"
| "band_tr MEDIUM = (50, 70)"
| "band_tr STRONG = (70, 85)"
| "band_tr VERY_STRONG = (85, 101)"

definition in_band :: "int \<times> int \<Rightarrow> int \<Rightarrow> bool" where
  "in_band b s = (fst b \<le> s \<and> s < snd b)"

text \<open>
  A password contains a listed weak password of at least 4 characters: some entry of
  the list with that length is a contiguous part of the (lowered) password.
\<close>

definition contains_listed :: "jsstring list \<Rightarrow> jsstring \<Rightarrow> bool" where
  "contains_listed ws s = (\<exists>w \<in> set ws. 4 \<le> length w \<and> sublist w s)"

text \<open>
  The thirty characters of the class of \<open>hasSpecialChars\<close>, read as characters; the
  apostrophe (39), the double quote (34) and the backslash (92) are given by code.
\<close>

definition special_chars :: "nat set" where
  "special_chars = set (str ''!@#$%^&*()_+-=[]{};:|,.<>/?'') \<union> {39, 34, 92}"

text \<open>
  The entries that Validators.ts has beyond the local lists of the self-contained
  variant.
\<close>

definition extra_weak_passwords :: "jsstring list" where
  "extra_weak_passwords = map str
    [''charlie'', ''aa123456'', ''donald'', ''password123'', ''qwerty123'',
     ''admin123'', ''pass'', ''test'', ''guest'', ''temp'', ''user'']"

definition extra_sequential_patterns :: "jsstring list" where
  "extra_sequential_patterns = map str
    [''pqrstu'', ''qrstuv'', ''rstuvw'', ''stuvwx'', ''tuvwxy'', ''uvwxyz'']"

text \<open>
  The fixed rule order of the messages: a table pairs each criterion, in that order,
  with the message of its failure, and \<open>unmet\<close> keeps the messages of the criteria
  that are false, in the order of the table.
\<close>

definition unmet :: "(bool \<times> jsstring) list \<Rightarrow> jsstring list" where
  "unmet table = map snd (filter (\<lambda>row. \<not> fst row) table)"

definition lengthMessage_en :: "jsstring \<Rightarrow> jsstring" where
  "lengthMessage_en p =
     (if length p < 8 then fb_tooShort_en (length p)
      else if length p < 12 then fb_mediumLength_en (length p)
      else fb_goodLength_en (length p))"

definition lengthMessage_tr :: "jsstring \<Rightarrow> jsstring" where
  "lengthMessage_tr p =
     (if length p < 8 then fb_tooShort_tr (length p)
      else if length p < 12 then fb_mediumLength_tr (length p)
      else fb_goodLength_tr (length p))"

definition feedbackTable_en :: "Criteria \<Rightarrow> (bool \<times> jsstring) list" where
  "feedbackTable_en c =
     [(c_hasLowercase c, fb_noLowercase_en),
      (c_hasUppercase c, fb_noUppercase_en),
      (c_hasNumbers c, fb_noNumbers_en),
      (c_hasSpecialChars c, fb_noSpecialChars_en),
      (c_noRepeatingChars c, fb_repeatingChars_en),
      (c_notWeakPassword c, fb_weakPassword_en),
      (c_noSequentialChars c, fb_sequentialChars_en)]"

definition feedbackTable_tr :: "Criteria \<Rightarrow> (bool \<times> jsstring) list" where
  "feedbackTable_tr c =
     [(c_hasLowercase c, fb_noLowercase_tr),
      (c_hasUppercase c, fb_noUppercase_tr),
      (c_hasNumbers c, fb_noNumbers_tr),
      (c_hasSpecialChars c, fb_noSpecialChars_tr),
      (c_noRepeatingChars c, fb_repeatingChars_tr),
      (c_notWeakPassword c, fb_weakPassword_tr),
      (c_noSequentialChars c, fb_sequentialChars_tr)]"

definition suggestionTable_en :: "Criteria \<Rightarrow> (bool \<times> jsstring) list" where
  "suggestionTable_en c =
     [(c_length c, sg_length_en),
      (c_hasLowercase c, sg_lowercase_en),
      (c_hasUppercase c, sg_uppercase_en),
      (c_hasNumbers c, sg_numbers_en),
      (c_hasSpecialChars c, sg_specialChars_en),
      (c_noRepeatingChars c, sg_repeatingChars_en),
      (c_notWeakPassword c, sg_weakPassword_en),
      (c_noSequentialChars c, sg_sequentialChars_en)]"

definition suggestionTable_tr :: "Criteria \<Rightarrow> (bool \<times> jsstring) list" where
  "suggestionTable_tr c =
     [(c_length c, sg_length_tr),
      (c_hasLowercase c, sg_lowercase_tr),
      (c_hasUppercase c, sg_uppercase_tr),
      (c_hasNumbers c, sg_numbers_tr),
      (c_hasSpecialChars c, sg_specialChars_tr),
      (c_noRepeatingChars c, sg_repeatingChars_tr),
      (c_notWeakPassword c, sg_weakPassword_tr),
      (c_noSequentialChars c, sg_sequentialChars_tr)]"

text \<open>The number of criteria that hold, which chooses the closing feedback message.\<close>

definition positiveCount :: "Criteria \<Rightarrow> nat" where
  "positiveCount c = length (filter (\<lambda>b. b) (criteria_values c))"

section \<open>Facts about the rule evaluators\<close>

lemma str_includes_sublist: "str_includes s w = sublist w s"
  by (induction s) (auto simp: sublist_Cons_right)

lemma checkLength_cases: "checkLength p \<in> {0, 5, 10, 20, 30}"
  by (simp add: checkLength_def)

lemma checkLength_en_eq: "checkLength_en p = checkLength p"
  by (simp add: checkLength_en_def checkLength_def)

lemma hasLowercase_en_eq: "hasLowercase_en p = hasLowercase p"
  by (simp add: hasLowercase_en_def hasLowercase_def)

lemma hasUppercase_en_eq: "hasUppercase_en p = hasUppercase p"
  by (simp add: hasUppercase_en_def hasUppercase_def)

lemma hasNumbers_en_eq: "hasNumbers_en p = hasNumbers p"
  by (simp add: hasNumbers_en_def hasNumbers_def)

lemma hasSpecialChars_en_eq: "hasSpecialChars_en p = hasSpecialChars p"
  by (simp add: hasSpecialChars_en_def hasSpecialChars_def)

lemma checkCharacterVariety_en_eq: "checkCharacterVariety_en p = checkCharacterVariety p"
  by (simp add: checkCharacterVariety_en_def checkCharacterVariety_def)

lemma repeatingLoop_en_eq:
  "repeatingLoop_en p i penalty repeatCount = repeatingLoop p i penalty repeatCount"
proof (induction p i penalty repeatCount rule: repeatingLoop.induct)
  case (1 password i penalty repeatCount)
  show ?case
    using 1 by (subst repeatingLoop_en.simps, subst repeatingLoop.simps) auto
qed

lemma checkRepeatingChars_en_eq: "checkRepeatingChars_en p = checkRepeatingChars p"
  by (simp add: checkRepeatingChars_en_def checkRepeatingChars_def repeatingLoop_en_eq)

lemma weakLoop_en_eq: "weakLoop_en ws lp = weakLoop ws lp"
  by (induction ws) simp_all

lemma patternLoop_en_eq: "patternLoop_en ps lp penalty = patternLoop ps lp penalty"
  by (induction ps arbitrary: penalty) simp_all

lemma runLoop_en_eq: "runLoop_en p i penalty = runLoop p i penalty"
proof (induction p i penalty rule: runLoop.induct)
  case (1 password i penalty)
  show ?case
    using 1 by (subst runLoop_en.simps, subst runLoop.simps) (auto simp: Let_def)
qed

lemma repeatingLoop_ge: "penalty \<le> repeatingLoop p i penalty repeatCount"
proof (induction p i penalty repeatCount rule: repeatingLoop.induct)
  case (1 password i penalty repeatCount)
  show ?case
  proof (cases "i < length password")
    case False
    then show ?thesis by (subst repeatingLoop.simps) simp
  next
    case True
    then show ?thesis
      using 1 by (subst repeatingLoop.simps) (auto simp: not_le)
  qed
qed

lemma checkRepeatingChars_range:
  "0 \<le> checkRepeatingChars p \<and> checkRepeatingChars p \<le> 15"
  using repeatingLoop_ge [of 0 p 1 1] by (simp add: checkRepeatingChars_def)

lemma weakLoop_cases: "weakLoop ws lp = 0 \<or> weakLoop ws lp = 15"
  by (induction ws) simp_all

lemma checkWeakPassword_cases:
  "checkWeakPassword lc p \<in> {0, 15, 20}"
  using weakLoop_cases [of WEAK_PASSWORDS "lc p"]
  by (auto simp: checkWeakPassword_def Let_def)

lemma checkWeakPassword_en_cases:
  "checkWeakPassword_en lc p \<in> {0, 15, 20}"
  using weakLoop_cases [of weakPasswords_en "lc p"]
  by (auto simp: checkWeakPassword_en_def Let_def weakLoop_en_eq)

lemma patternLoop_ge: "penalty \<le> patternLoop ps lp penalty"
proof (induction ps arbitrary: penalty)
  case Nil
  show ?case by simp
next
  case (Cons pattern rest)
  show ?case
    using Cons [of penalty] Cons [of "penalty + 10"] by simp
qed

lemma runLoop_cases: "runLoop p i penalty = penalty \<or> runLoop p i penalty = penalty + 5"
proof (induction p i penalty rule: runLoop.induct)
  case (1 password i penalty)
  show ?case
    using 1 by (subst (1 2) runLoop.simps) (auto simp: Let_def)
qed

lemma checkSequentialChars_range:
  "0 \<le> checkSequentialChars lc p \<and> checkSequentialChars lc p \<le> 15"
  using patternLoop_ge [of 0 SEQUENTIAL_PATTERNS "lc p"]
    runLoop_cases [of p 0 "patternLoop SEQUENTIAL_PATTERNS (lc p) 0"]
  by (auto simp: checkSequentialChars_def Let_def)

lemma checkSequentialChars_en_range:
  "0 \<le> checkSequentialChars_en lc p \<and> checkSequentialChars_en lc p \<le> 15"
  using patternLoop_ge [of 0 sequentialPatterns_en "lc p"]
    runLoop_cases [of p 0 "patternLoop sequentialPatterns_en (lc p) 0"]
  by (auto simp: checkSequentialChars_en_def Let_def patternLoop_en_eq runLoop_en_eq)

lemma checkCharacterVariety_range:
  "0 \<le> checkCharacterVariety p \<and> checkCharacterVariety p \<le> 10"
  by (simp add: checkCharacterVariety_def Let_def)

lemma bonuses_le_85:
  "checkLength p + hasLowercase p + hasUppercase p + hasNumbers p + hasSpecialChars p +
     checkCharacterVariety p \<le> 85"
  using checkCharacterVariety_range [of p] checkLength_cases [of p]
  by (auto simp: hasLowercase_def hasUppercase_def hasNumbers_def hasSpecialChars_def)

section \<open>Facts about the two analyses\<close>

lemma analyze_en_cong: "lc p = lc' p \<Longrightarrow> analyze_en lc p = analyze_en lc' p"
  by (simp add: analyze_en_def runAllValidations_en_def checkWeakPassword_en_def
      checkSequentialChars_en_def)

lemma analyze_tr_cong: "lc p = lc' p \<Longrightarrow> analyze_tr lc p = analyze_tr lc' p"
  by (simp add: analyze_tr_def runAllValidations_def checkWeakPassword_def
      checkSequentialChars_def)

lemma score_en:
  "score (analyze_en lc p) =
     (if p = [] then 0 else max 0 (min (rawScore (runAllValidations_en lc p)) 100))"
  by (simp add: analyze_en_def getEmptyAnalysis_en_def Let_def rawScore_def Math_round_def)

lemma score_tr:
  "score (analyze_tr lc p) =
     (if p = [] then 0 else max 0 (min (rawScore (runAllValidations lc p)) 100))"
  by (simp add: analyze_tr_def getEmptyAnalysis_tr_def Let_def rawScore_def)

lemma rawScore_tr_le: "rawScore (runAllValidations lc p) \<le> 85"
  using bonuses_le_85 [of p] checkRepeatingChars_range [of p]
    checkWeakPassword_cases [of lc p] checkSequentialChars_range [of lc p]
  by (auto simp: rawScore_def runAllValidations_def)

lemma rawScore_en_le: "rawScore (runAllValidations_en lc p) \<le> 85"
  using bonuses_le_85 [of p] checkRepeatingChars_range [of p]
    checkWeakPassword_en_cases [of lc p] checkSequentialChars_en_range [of lc p]
  by (auto simp: rawScore_def runAllValidations_en_def checkLength_en_eq hasLowercase_en_eq
      hasUppercase_en_eq hasNumbers_en_eq hasSpecialChars_en_eq checkCharacterVariety_en_eq
      checkRepeatingChars_en_eq)

lemma level_en:
  "level (analyze_en lc p) = determineStrengthLevel_en (score (analyze_en lc p))"
proof (cases "p = []")
  case True
  then show ?thesis
    by (simp add: analyze_en_def getEmptyAnalysis_en_def determineStrengthLevel_en_def)
next
  case False
  then show ?thesis
    by (simp add: analyze_en_def Let_def Math_round_def)
qed

lemma level_tr:
  "level (analyze_tr lc p) = determineStrengthLevel_tr (score (analyze_tr lc p))"
proof (cases "p = []")
  case True
  then show ?thesis
    by (simp add: analyze_tr_def getEmptyAnalysis_tr_def determineStrengthLevel_tr_def)
next
  case False
  then show ?thesis
    by (simp add: analyze_tr_def Let_def)
qed

lemma criteria_en:
  "p \<noteq> [] \<Longrightarrow> criteria (analyze_en lc p) =
     \<lparr> c_length = checkLength_en p \<ge> 20,
       c_hasLowercase = hasLowercase_en p > 0,
       c_hasUppercase = hasUppercase_en p > 0,
       c_hasNumbers = hasNumbers_en p > 0,
       c_hasSpecialChars = hasSpecialChars_en p > 0,
       c_noRepeatingChars = checkRepeatingChars_en p = 0,
       c_notWeakPassword = checkWeakPassword_en lc p = 0,
       c_noSequentialChars = checkSequentialChars_en lc p = 0 \<rparr>"
  by (simp add: analyze_en_def Let_def runAllValidations_en_def)

lemma criteria_tr:
  "p \<noteq> [] \<Longrightarrow> criteria (analyze_tr lc p) =
     \<lparr> c_length = checkLength p \<ge> 20,
       c_hasLowercase = hasLowercase p > 0,
       c_hasUppercase = hasUppercase p > 0,
       c_hasNumbers = hasNumbers p > 0,
       c_hasSpecialChars = hasSpecialChars p > 0,
       c_noRepeatingChars = checkRepeatingChars p = 0,
       c_notWeakPassword = checkWeakPassword lc p = 0,
       c_noSequentialChars = checkSequentialChars lc p = 0 \<rparr>"
  by (simp add: analyze_tr_def Let_def runAllValidations_def)

lemma criteria_empty:
  "criteria (analyze_en lc []) = criteria (analyze_tr lc [])"
  "\<not> c_length (criteria (analyze_tr lc []))"
  "\<not> c_hasLowercase (criteria (analyze_tr lc []))"
  "\<not> c_hasUppercase (criteria (analyze_tr lc []))"
  "\<not> c_hasNumbers (criteria (analyze_tr lc []))"
  "\<not> c_hasSpecialChars (criteria (analyze_tr lc []))"
  "\<not> c_noRepeatingChars (criteria (analyze_tr lc []))"
  "\<not> c_notWeakPassword (criteria (analyze_tr lc []))"
  "\<not> c_noSequentialChars (criteria (analyze_tr lc []))"
  by (simp_all add: analyze_en_def analyze_tr_def getEmptyAnalysis_en_def
      getEmptyAnalysis_tr_def)

lemma checkLength_ge_20: "checkLength p \<ge> 20 \<longleftrightarrow> length p \<ge> 8"
  by (simp add: checkLength_def)

lemma checkLength_eq_30: "checkLength p = 30 \<longleftrightarrow> length p \<ge> 12"
  by (simp add: checkLength_def)

lemma weakLoop_15_iff: "weakLoop ws lp = 15 \<longleftrightarrow> contains_listed ws lp"
  by (induction ws) (auto simp: contains_listed_def str_includes_sublist)

lemma weakLoop_0_iff: "weakLoop ws lp = 0 \<longleftrightarrow> \<not> contains_listed ws lp"
  using weakLoop_15_iff [of ws lp] weakLoop_cases [of ws lp] by auto

lemma weakLoop_append:
  "weakLoop (xs @ ys) lp = (if weakLoop xs lp = 15 then 15 else weakLoop ys lp)"
  by (induction xs) simp_all

lemma patternLoop_append:
  "patternLoop (xs @ ys) lp penalty = patternLoop ys lp (patternLoop xs lp penalty)"
  by (induction xs arbitrary: penalty) simp_all

lemma patternLoop_shift: "patternLoop ps lp penalty = penalty + patternLoop ps lp 0"
proof (induction ps arbitrary: penalty)
  case Nil
  show ?case by simp
next
  case (Cons pattern rest)
  show ?case
    using Cons [of "penalty + 10"] Cons [of penalty] Cons [of 10] by simp
qed

lemma runLoop_shift: "runLoop p i penalty = penalty + runLoop p i 0"
proof (induction p i penalty rule: runLoop.induct)
  case (1 password i penalty)
  show ?case
    using 1 by (subst (1 2) runLoop.simps) (auto simp: Let_def)
qed

lemma special_is_non_alnum: "class_special c \<Longrightarrow> class_non_alnum c"
  by (auto simp: class_special_def class_non_alnum_def class_lower_def class_upper_def
      class_digit_def)

lemma class_special_chars: "class_special c \<longleftrightarrow> c \<in> special_chars"
  by (auto simp: class_special_def special_chars_def str_def)

lemma lists_extend:
  "WEAK_PASSWORDS = weakPasswords_en @ extra_weak_passwords"
  "SEQUENTIAL_PATTERNS = sequentialPatterns_en @ extra_sequential_patterns"
  by (simp_all add: WEAK_PASSWORDS_def weakPasswords_en_def extra_weak_passwords_def
      SEQUENTIAL_PATTERNS_def sequentialPatterns_en_def extra_sequential_patterns_def)

lemma weak_en_le: "checkWeakPassword_en lc p \<le> checkWeakPassword lc p"
proof (cases "lc p \<in> set weakPasswords_en")
  case True
  then show ?thesis
    by (simp add: checkWeakPassword_en_def checkWeakPassword_def lists_extend)
next
  case False
  show ?thesis
    using False weakLoop_cases [of weakPasswords_en "lc p"]
      weakLoop_cases [of extra_weak_passwords "lc p"]
    by (auto simp: checkWeakPassword_en_def checkWeakPassword_def lists_extend Let_def
        weakLoop_en_eq weakLoop_append)
qed

lemma sequential_en_le: "checkSequentialChars_en lc p \<le> checkSequentialChars lc p"
proof -
  let ?a = "patternLoop sequentialPatterns_en (lc p) 0"
  have "?a \<le> patternLoop extra_sequential_patterns (lc p) ?a"
    by (rule patternLoop_ge)
  then have "runLoop p 0 ?a \<le> runLoop p 0 (patternLoop extra_sequential_patterns (lc p) ?a)"
    using runLoop_shift [of p 0 ?a]
      runLoop_shift [of p 0 "patternLoop extra_sequential_patterns (lc p) ?a"]
    by simp
  then show ?thesis
    by (simp add: checkSequentialChars_en_def checkSequentialChars_def Let_def lists_extend
        patternLoop_en_eq runLoop_en_eq patternLoop_append)
qed

lemma unmet_Nil: "unmet [] = []"
  by (simp add: unmet_def)

lemma unmet_Cons: "unmet ((b, m) # table) = (if \<not> b then [m] else []) @ unmet table"
  by (simp add: unmet_def)

lemma feedback_en:
  "p \<noteq> [] \<Longrightarrow>
   feedback (analyze_en lc p) = generateFeedback_en p (criteria (analyze_en lc p))"
  by (simp add: analyze_en_def Let_def)

lemma feedback_tr:
  "p \<noteq> [] \<Longrightarrow>
   feedback (analyze_tr lc p) =
     generateFeedback_tr p (runAllValidations lc p) (criteria (analyze_tr lc p))"
  by (simp add: analyze_tr_def Let_def)

lemma suggestions_en:
  "p \<noteq> [] \<Longrightarrow>
   suggestions (analyze_en lc p) =
     generateSuggestions_en (criteria (analyze_en lc p)) (score (analyze_en lc p))"
  by (simp add: analyze_en_def Let_def Math_round_def)

lemma suggestions_tr:
  "p \<noteq> [] \<Longrightarrow>
   suggestions (analyze_tr lc p) =
     generateSuggestions_tr (criteria (analyze_tr lc p)) (score (analyze_tr lc p))"
  by (simp add: analyze_tr_def Let_def)

lemma generateFeedback_en_table:
  "generateFeedback_en p c =
     lengthMessage_en p # unmet (feedbackTable_en c) @
     (if 6 \<le> positiveCount c then [fb_excellent_en]
      else if 4 \<le> positiveCount c then [fb_goodStart_en] else [])"
  by (simp add: generateFeedback_en_def lengthMessage_en_def feedbackTable_en_def
      positiveCount_def unmet_Cons unmet_Nil Let_def)

lemma generateFeedback_tr_table:
  "generateFeedback_tr p v c =
     lengthMessage_tr p # unmet (feedbackTable_tr c) @
     (if 6 \<le> positiveCount c then [fb_excellent_tr]
      else if 4 \<le> positiveCount c then [fb_goodStart_tr] else [])"
  by (simp add: generateFeedback_tr_def lengthMessage_tr_def feedbackTable_tr_def
      positiveCount_def unmet_Cons unmet_Nil Let_def)

lemma generateSuggestions_en_table:
  "generateSuggestions_en c s =
     (if s < 50 then [sg_header_en] else []) @ unmet (suggestionTable_en c) @
     (if 70 \<le> s then [sg_goodJob_en] else []) @ (if 85 \<le> s then [sg_excellent_en] else [])"
  by (simp add: generateSuggestions_en_def suggestionTable_en_def unmet_Cons unmet_Nil)

lemma generateSuggestions_tr_table:
  "generateSuggestions_tr c s =
     (if s < 50 then [sg_header_tr] else []) @ unmet (suggestionTable_tr c) @
     (if 70 \<le> s then [sg_goodJob_tr] else []) @ (if 85 \<le> s then [sg_excellent_tr] else [])"
  by (simp add: generateSuggestions_tr_def suggestionTable_tr_def unmet_Cons unmet_Nil)

lemma unmet_suggestionTable_en_empty:
  "unmet (suggestionTable_en c) = [] \<longleftrightarrow> (\<forall>b \<in> set (criteria_values c). b)"
  by (simp add: suggestionTable_en_def unmet_Cons unmet_Nil criteria_values_def)

lemma unmet_suggestionTable_tr_empty:
  "unmet (suggestionTable_tr c) = [] \<longleftrightarrow> (\<forall>b \<in> set (criteria_values c). b)"
  by (simp add: suggestionTable_tr_def unmet_Cons unmet_Nil criteria_values_def)

lemma all_classes_variety:
  assumes "hasLowercase p > 0" and "hasUppercase p > 0" and "hasNumbers p > 0"
    and "hasSpecialChars p > 0"
  shows "hasLowercase p = 10 \<and> hasUppercase p = 10 \<and> hasNumbers p = 10 \<and>
         hasSpecialChars p = 15 \<and> checkCharacterVariety p = 10"
proof -
  have l: "regex_test class_lower p"
    using assms(1) by (simp add: hasLowercase_def split: if_splits)
  have u: "regex_test class_upper p"
    using assms(2) by (simp add: hasUppercase_def split: if_splits)
  have d: "regex_test class_digit p"
    using assms(3) by (simp add: hasNumbers_def split: if_splits)
  have s: "regex_test class_special p"
    using assms(4) by (simp add: hasSpecialChars_def split: if_splits)
  then have n: "regex_test class_non_alnum p"
    using special_is_non_alnum by (auto simp: regex_test_def)
  show ?thesis
    using l u d s n
    by (simp add: hasLowercase_def hasUppercase_def hasNumbers_def hasSpecialChars_def
        checkCharacterVariety_def)
qed

lemma all_met_score_tr:
  assumes "p \<noteq> []" and "\<forall>b \<in> set (criteria_values (criteria (analyze_tr lc p))). b"
  shows "75 \<le> score (analyze_tr lc p)"
proof -
  have c: "20 \<le> checkLength p" "hasLowercase p > 0" "hasUppercase p > 0" "hasNumbers p > 0"
    "hasSpecialChars p > 0" "checkRepeatingChars p = 0" "checkWeakPassword lc p = 0"
    "checkSequentialChars lc p = 0"
    using assms by (simp_all add: criteria_tr criteria_values_def)
  have "75 \<le> rawScore (runAllValidations lc p)"
    using c all_classes_variety [OF c(2) c(3) c(4) c(5)]
    by (simp add: rawScore_def runAllValidations_def)
  then show ?thesis
    using assms(1) rawScore_tr_le [of lc p] by (simp add: score_tr)
qed

lemma all_met_score_en:
  assumes "p \<noteq> []" and "\<forall>b \<in> set (criteria_values (criteria (analyze_en lc p))). b"
  shows "75 \<le> score (analyze_en lc p)"
proof -
  have c: "20 \<le> checkLength p" "hasLowercase p > 0" "hasUppercase p > 0" "hasNumbers p > 0"
    "hasSpecialChars p > 0" "checkRepeatingChars p = 0" "checkWeakPassword_en lc p = 0"
    "checkSequentialChars_en lc p = 0"
    using assms
    by (simp_all add: criteria_en criteria_values_def checkLength_en_eq hasLowercase_en_eq
        hasUppercase_en_eq hasNumbers_en_eq hasSpecialChars_en_eq checkRepeatingChars_en_eq)
  have "75 \<le> rawScore (runAllValidations_en lc p)"
    using c all_classes_variety [OF c(2) c(3) c(4) c(5)]
    by (simp add: rawScore_def runAllValidations_en_def checkLength_en_eq hasLowercase_en_eq
        hasUppercase_en_eq hasNumbers_en_eq hasSpecialChars_en_eq checkRepeatingChars_en_eq
        checkCharacterVariety_en_eq)
  then show ?thesis
    using assms(1) rawScore_en_le [of lc p] by (simp add: score_en)
qed

lemma suggestions_en_nonempty: "p \<noteq> [] \<Longrightarrow> suggestions (analyze_en lc p) \<noteq> []"
proof (cases "unmet (suggestionTable_en (criteria (analyze_en lc p))) = []")
  case True
  assume "p \<noteq> []"
  then have "75 \<le> score (analyze_en lc p)"
    using True by (simp add: all_met_score_en unmet_suggestionTable_en_empty)
  then show ?thesis
    using \<open>p \<noteq> []\<close> by (simp add: suggestions_en generateSuggestions_en_table)
next
  case False
  assume "p \<noteq> []"
  then show ?thesis
    using False by (simp add: suggestions_en generateSuggestions_en_table)
qed

lemma suggestions_tr_nonempty: "p \<noteq> [] \<Longrightarrow> suggestions (analyze_tr lc p) \<noteq> []"
proof (cases "unmet (suggestionTable_tr (criteria (analyze_tr lc p))) = []")
  case True
  assume "p \<noteq> []"
  then have "75 \<le> score (analyze_tr lc p)"
    using True by (simp add: all_met_score_tr unmet_suggestionTable_tr_empty)
  then show ?thesis
    using \<open>p \<noteq> []\<close> by (simp add: suggestions_tr generateSuggestions_tr_table)
next
  case False
  assume "p \<noteq> []"
  then show ?thesis
    using False by (simp add: suggestions_tr generateSuggestions_tr_table)
qed

lemma clamp_mono: "(a::int) \<le> b \<Longrightarrow> max 0 (min a 100) \<le> max 0 (min b 100)"
  by simp

section \<open>The claims\<close>

text \<open>
  C1. For every password, empty or not and whatever its characters, the score of the
  analysis is an integer between 0 and 100: 0 for the empty password, and otherwise
  the sum of the bonuses minus the penalties, clamped to that interval. Both variants.
\<close>

theorem score_in_range:
  "0 \<le> score (analyze_en lc p) \<and> score (analyze_en lc p) \<le> 100 \<and>
   0 \<le> score (analyze_tr lc p) \<and> score (analyze_tr lc p) \<le> 100 \<and>
   score (analyze_en lc p) =
     (if p = [] then 0 else max 0 (min (rawScore (runAllValidations_en lc p)) 100)) \<and>
   score (analyze_tr lc p) =
     (if p = [] then 0 else max 0 (min (rawScore (runAllValidations lc p)) 100))"
  by (simp add: score_en score_tr)

theorem score_in_range_witness:
  "score (analyze_en toLowerCase_ascii (str ''12345'')) = 0 \<and>
   score (analyze_tr toLowerCase_ascii (str ''Tr0ub4dor&9Zx'')) = 85 \<and>
   rawScore (runAllValidations_en toLowerCase_ascii (str ''12345'')) = - 20"
proof -
  have ne: "str ''12345'' \<noteq> []" "str ''Tr0ub4dor&9Zx'' \<noteq> []"
    by (simp_all add: str_def)
  have r1: "rawScore (runAllValidations_en toLowerCase_ascii (str ''12345'')) = - 20"
    by code_simp
  have r2: "rawScore (runAllValidations toLowerCase_ascii (str ''Tr0ub4dor&9Zx'')) = 85"
    by code_simp
  show ?thesis
    using score_in_range [of toLowerCase_ascii "str ''12345''"]
      score_in_range [of toLowerCase_ascii "str ''Tr0ub4dor&9Zx''"] ne r1 r2
    by simp
qed

text \<open>
  C2. The analysis of the empty password is the fixed EMPTY result: score 0, level
  EMPTY, the eight criteria false, one fixed feedback message and one fixed
  suggestion. It is a constant of the program, the same at every call and for every
  host, and not what the rule evaluators give on the empty string: the repeating
  penalty is 0 there, which would make its criterion true.
\<close>

theorem empty_password_analysis:
  "analyze_en lc [] =
     \<lparr> score = 0, level = EMPTY,
       criteria = \<lparr> c_length = False, c_hasLowercase = False, c_hasUppercase = False,
                    c_hasNumbers = False, c_hasSpecialChars = False,
                    c_noRepeatingChars = False, c_notWeakPassword = False,
                    c_noSequentialChars = False \<rparr>,
       feedback = [str ''Please enter a password to analyze''],
       suggestions = [str ''Password should be at least 8 characters long''] \<rparr> \<and>
   analyze_tr lc [] =
     \<lparr> score = 0, level = EMPTY,
       criteria = \<lparr> c_length = False, c_hasLowercase = False, c_hasUppercase = False,
                    c_hasNumbers = False, c_hasSpecialChars = False,
                    c_noRepeatingChars = False, c_notWeakPassword = False,
                    c_noSequentialChars = False \<rparr>,
       feedback = [fb_empty_tr],
       suggestions = [sg_empty_tr] \<rparr> \<and>
   analyze_en lc [] = analyze_en lc' [] \<and> analyze_tr lc [] = analyze_tr lc' [] \<and>
   checkRepeatingChars [] = 0 \<and> checkRepeatingChars_en [] = 0"
  by (simp add: analyze_en_def analyze_tr_def getEmptyAnalysis_en_def getEmptyAnalysis_tr_def
      fb_empty_en_def sg_empty_en_def checkRepeatingChars_def checkRepeatingChars_en_def)

theorem empty_password_analysis_witness:
  "score (analyze_en toLowerCase_ascii (str '''')) = 0 \<and>
   level (analyze_tr toLowerCase_ascii (str '''')) = EMPTY \<and>
   length (feedback (analyze_en toLowerCase_ascii (str ''''))) = 1 \<and>
   length (suggestions (analyze_tr toLowerCase_ascii (str ''''))) = 1"
  using empty_password_analysis [of toLowerCase_ascii toLowerCase_ascii]
  by (simp add: str_def)

text \<open>
  C3, as the specification states it, fails: the length criterion is already true in
  the band below the top one. The eight-character password abcdefgh has the length
  contribution 20, not 30, and fewer than 12 characters, and its length criterion is
  true in both variants.
\<close>

theorem length_criterion_top_band_counterexample:
  "length (str ''abcdefgh'') = 8 \<and>
   checkLength_en (str ''abcdefgh'') = 20 \<and>
   c_length (criteria (analyze_en toLowerCase_ascii (str ''abcdefgh''))) \<and>
   checkLength (str ''abcdefgh'') = 20 \<and>
   c_length (criteria (analyze_tr toLowerCase_ascii (str ''abcdefgh'')))"
  by code_simp

text \<open>
  C3, amended. For every non-empty password the criteria are derived from the raw
  outputs of the rule evaluators, not from the score: the length criterion is true
  iff the length contribution is at least 20, that is iff the password has at least 8
  characters (the two upper length bands); each presence criterion is true iff its
  contribution is positive; each penalty criterion is true iff its penalty is 0. In
  both variants. (The empty password has all eight criteria false.)
\<close>

theorem criteria_from_raw_outputs:
  assumes "p \<noteq> []"
  shows "(c_length (criteria (analyze_en lc p)) \<longleftrightarrow> checkLength_en p \<ge> 20) \<and>
         (c_length (criteria (analyze_en lc p)) \<longleftrightarrow> length p \<ge> 8) \<and>
         (c_hasLowercase (criteria (analyze_en lc p)) \<longleftrightarrow> hasLowercase_en p > 0) \<and>
         (c_hasUppercase (criteria (analyze_en lc p)) \<longleftrightarrow> hasUppercase_en p > 0) \<and>
         (c_hasNumbers (criteria (analyze_en lc p)) \<longleftrightarrow> hasNumbers_en p > 0) \<and>
         (c_hasSpecialChars (criteria (analyze_en lc p)) \<longleftrightarrow> hasSpecialChars_en p > 0) \<and>
         (c_noRepeatingChars (criteria (analyze_en lc p)) \<longleftrightarrow> checkRepeatingChars_en p = 0) \<and>
         (c_notWeakPassword (criteria (analyze_en lc p)) \<longleftrightarrow> checkWeakPassword_en lc p = 0) \<and>
         (c_noSequentialChars (criteria (analyze_en lc p)) \<longleftrightarrow>
            checkSequentialChars_en lc p = 0) \<and>
         (c_length (criteria (analyze_tr lc p)) \<longleftrightarrow> checkLength p \<ge> 20) \<and>
         (c_length (criteria (analyze_tr lc p)) \<longleftrightarrow> length p \<ge> 8) \<and>
         (c_hasLowercase (criteria (analyze_tr lc p)) \<longleftrightarrow> hasLowercase p > 0) \<and>
         (c_hasUppercase (criteria (analyze_tr lc p)) \<longleftrightarrow> hasUppercase p > 0) \<and>
         (c_hasNumbers (criteria (analyze_tr lc p)) \<longleftrightarrow> hasNumbers p > 0) \<and>
         (c_hasSpecialChars (criteria (analyze_tr lc p)) \<longleftrightarrow> hasSpecialChars p > 0) \<and>
         (c_noRepeatingChars (criteria (analyze_tr lc p)) \<longleftrightarrow> checkRepeatingChars p = 0) \<and>
         (c_notWeakPassword (criteria (analyze_tr lc p)) \<longleftrightarrow> checkWeakPassword lc p = 0) \<and>
         (c_noSequentialChars (criteria (analyze_tr lc p)) \<longleftrightarrow> checkSequentialChars lc p = 0)"
  using assms
  by (simp add: criteria_en criteria_tr checkLength_en_eq checkLength_ge_20)

theorem criteria_from_raw_outputs_witness:
  "str ''abcdefgh'' \<noteq> [] \<and>
   c_length (criteria (analyze_tr toLowerCase_ascii (str ''abcdefgh''))) \<and>
   \<not> c_noSequentialChars (criteria (analyze_tr toLowerCase_ascii (str ''abcdefgh''))) \<and>
   c_notWeakPassword (criteria (analyze_en toLowerCase_ascii (str ''abcdefgh''))) \<and>
   \<not> c_hasNumbers (criteria (analyze_en toLowerCase_ascii (str ''abcdefgh'')))"
proof -
  have ne: "str ''abcdefgh'' \<noteq> []"
    by (simp add: str_def)
  have l: "length (str ''abcdefgh'') = 8"
    by (simp add: str_def)
  have v: "checkSequentialChars toLowerCase_ascii (str ''abcdefgh'') = 15"
    "checkWeakPassword_en toLowerCase_ascii (str ''abcdefgh'') = 0"
    "hasNumbers_en (str ''abcdefgh'') = 0"
    "checkLength (str ''abcdefgh'') = 20"
    by code_simp+
  show ?thesis
    using criteria_from_raw_outputs [OF ne, of toLowerCase_ascii] ne l v by simp
qed

text \<open>
  C4. The level of an analysis is a function of its score alone. On the scores 0..100
  that function sends a score to the one level whose half-open band holds it, the
  bands lie end to end from 0 to 100, and a higher score never has a lower level in
  the order EMPTY < VERY_WEAK < WEAK < MEDIUM < STRONG < VERY_STRONG. Both threshold
  tables.
\<close>

theorem level_monotone_step_function:
  assumes "0 \<le> s1" and "s1 \<le> s2" and "s2 \<le> 100"
  shows "level_rank (determineStrengthLevel_en s1) \<le> level_rank (determineStrengthLevel_en s2) \<and>
         level_rank (determineStrengthLevel_tr s1) \<le> level_rank (determineStrengthLevel_tr s2) \<and>
         (determineStrengthLevel_en s1 = l \<longleftrightarrow> in_band (band_en l) s1) \<and>
         (determineStrengthLevel_tr s1 = l \<longleftrightarrow> in_band (band_tr l) s1) \<and>
         level (analyze_en lc p) = determineStrengthLevel_en (score (analyze_en lc p)) \<and>
         level (analyze_tr lc p) = determineStrengthLevel_tr (score (analyze_tr lc p))"
proof -
  have mono_en: "level_rank (determineStrengthLevel_en s1) \<le> level_rank (determineStrengthLevel_en s2)"
    using assms by (simp add: determineStrengthLevel_en_def)
  have mono_tr: "level_rank (determineStrengthLevel_tr s1) \<le> level_rank (determineStrengthLevel_tr s2)"
    using assms by (simp add: determineStrengthLevel_tr_def)
  have band_en: "determineStrengthLevel_en s1 = l \<longleftrightarrow> in_band (band_en l) s1"
    using assms by (cases l) (auto simp: determineStrengthLevel_en_def in_band_def)
  have band_tr: "determineStrengthLevel_tr s1 = l \<longleftrightarrow> in_band (band_tr l) s1"
    using assms by (cases l) (auto simp: determineStrengthLevel_tr_def in_band_def)
  show ?thesis
    using mono_en mono_tr band_en band_tr level_en [of lc p] level_tr [of lc p] by simp
qed

theorem level_monotone_step_function_witness:
  "(0::int) \<le> 19 \<and> (19::int) \<le> 20 \<and> (20::int) \<le> 100 \<and>
   determineStrengthLevel_en 19 = VERY_WEAK \<and> determineStrengthLevel_en 20 = WEAK \<and>
   in_band (band_en VERY_WEAK) 19 \<and> \<not> in_band (band_en WEAK) 19 \<and>
   level (analyze_tr toLowerCase_ascii (str ''Tr0ub4dor&9Zx'')) =
     determineStrengthLevel_tr (score (analyze_tr toLowerCase_ascii (str ''Tr0ub4dor&9Zx'')))"
proof -
  have h: "(0::int) \<le> 19" "(19::int) \<le> 20" "(20::int) \<le> 100"
    by simp_all
  have e: "determineStrengthLevel_en 19 = VERY_WEAK" "determineStrengthLevel_en 20 = WEAK"
    by (simp_all add: determineStrengthLevel_en_def)
  show ?thesis
    using level_monotone_step_function [OF h, of VERY_WEAK toLowerCase_ascii "str ''Tr0ub4dor&9Zx''"]
      level_monotone_step_function [OF h, of WEAK toLowerCase_ascii "str ''Tr0ub4dor&9Zx''"] e
    by simp
qed

text \<open>
  C5, as the specification states it for every password, fails at the empty password:
  its lowered form neither is a listed weak password nor contains one, and the weak
  penalty of the evaluator is 0 there, yet the criterion is false, because the
  analysis returns the fixed EMPTY result.
\<close>

theorem not_weak_criterion_counterexample:
  "toLowerCase_ascii [] \<notin> set WEAK_PASSWORDS \<and>
   \<not> contains_listed WEAK_PASSWORDS (toLowerCase_ascii []) \<and>
   checkWeakPassword toLowerCase_ascii [] = 0 \<and>
   \<not> c_notWeakPassword (criteria (analyze_tr toLowerCase_ascii []))"
proof -
  have 1: "toLowerCase_ascii [] \<notin> set WEAK_PASSWORDS"
    by code_simp
  have 2: "checkWeakPassword toLowerCase_ascii [] = 0"
    by code_simp
  have 3: "weakLoop WEAK_PASSWORDS (toLowerCase_ascii []) = 0"
    using 1 2 by (simp add: checkWeakPassword_def)
  have 4: "\<not> c_notWeakPassword (criteria (analyze_tr toLowerCase_ascii []))"
    by (rule criteria_empty)
  show ?thesis
    using 1 2 3 4 by (simp add: weakLoop_0_iff)
qed

text \<open>
  C5, amended. For every non-empty password p: if p lowered is an entry of the static
  weak-password list, the weak penalty is 20 and the criterion notWeakPassword is
  false; if it is no entry but contains a listed weak password of at least 4
  characters, the penalty is 15 and the criterion is false (the exact match is tested
  first); otherwise the penalty is 0 and the criterion is true. For Validators.ts with
  its list and for the self-contained variant with its local list.
\<close>

theorem not_weak_criterion:
  assumes "p \<noteq> []"
  shows "(lc p \<in> set WEAK_PASSWORDS \<longrightarrow>
            checkWeakPassword lc p = 20 \<and> \<not> c_notWeakPassword (criteria (analyze_tr lc p))) \<and>
         (lc p \<notin> set WEAK_PASSWORDS \<and> contains_listed WEAK_PASSWORDS (lc p) \<longrightarrow>
            checkWeakPassword lc p = 15 \<and> \<not> c_notWeakPassword (criteria (analyze_tr lc p))) \<and>
         (lc p \<notin> set WEAK_PASSWORDS \<and> \<not> contains_listed WEAK_PASSWORDS (lc p) \<longrightarrow>
            checkWeakPassword lc p = 0 \<and> c_notWeakPassword (criteria (analyze_tr lc p))) \<and>
         (lc p \<in> set weakPasswords_en \<longrightarrow>
            checkWeakPassword_en lc p = 20 \<and>
            \<not> c_notWeakPassword (criteria (analyze_en lc p))) \<and>
         (lc p \<notin> set weakPasswords_en \<and> contains_listed weakPasswords_en (lc p) \<longrightarrow>
            checkWeakPassword_en lc p = 15 \<and>
            \<not> c_notWeakPassword (criteria (analyze_en lc p))) \<and>
         (lc p \<notin> set weakPasswords_en \<and> \<not> contains_listed weakPasswords_en (lc p) \<longrightarrow>
            checkWeakPassword_en lc p = 0 \<and> c_notWeakPassword (criteria (analyze_en lc p)))"
proof -
  have tr: "checkWeakPassword lc p =
      (if lc p \<in> set WEAK_PASSWORDS then 20
       else if contains_listed WEAK_PASSWORDS (lc p) then 15 else 0)"
    using weakLoop_15_iff [of WEAK_PASSWORDS "lc p"] weakLoop_0_iff [of WEAK_PASSWORDS "lc p"]
    by (simp add: checkWeakPassword_def)
  have en: "checkWeakPassword_en lc p =
      (if lc p \<in> set weakPasswords_en then 20
       else if contains_listed weakPasswords_en (lc p) then 15 else 0)"
    using weakLoop_15_iff [of weakPasswords_en "lc p"]
      weakLoop_0_iff [of weakPasswords_en "lc p"]
    by (simp add: checkWeakPassword_en_def weakLoop_en_eq)
  show ?thesis
    using assms by (simp add: criteria_en criteria_tr tr en)
qed

theorem not_weak_criterion_witness:
  "str ''PassWord'' \<noteq> [] \<and>
   toLowerCase_ascii (str ''PassWord'') \<in> set WEAK_PASSWORDS \<and>
   checkWeakPassword toLowerCase_ascii (str ''PassWord'') = 20 \<and>
   \<not> c_notWeakPassword (criteria (analyze_tr toLowerCase_ascii (str ''PassWord''))) \<and>
   str ''myTest7'' \<noteq> [] \<and>
   toLowerCase_ascii (str ''myTest7'') \<notin> set WEAK_PASSWORDS \<and>
   contains_listed WEAK_PASSWORDS (toLowerCase_ascii (str ''myTest7'')) \<and>
   checkWeakPassword toLowerCase_ascii (str ''myTest7'') = 15 \<and>
   \<not> c_notWeakPassword (criteria (analyze_tr toLowerCase_ascii (str ''myTest7''))) \<and>
   str ''Tr0ub4dor&9Zx'' \<noteq> [] \<and>
   toLowerCase_ascii (str ''Tr0ub4dor&9Zx'') \<notin> set WEAK_PASSWORDS \<and>
   \<not> contains_listed WEAK_PASSWORDS (toLowerCase_ascii (str ''Tr0ub4dor&9Zx'')) \<and>
   checkWeakPassword toLowerCase_ascii (str ''Tr0ub4dor&9Zx'') = 0 \<and>
   c_notWeakPassword (criteria (analyze_tr toLowerCase_ascii (str ''Tr0ub4dor&9Zx'')))"
proof -
  have ne: "str ''PassWord'' \<noteq> []" "str ''myTest7'' \<noteq> []" "str ''Tr0ub4dor&9Zx'' \<noteq> []"
    by (simp_all add: str_def)
  have a: "toLowerCase_ascii (str ''PassWord'') \<in> set WEAK_PASSWORDS"
    by code_simp
  have b1: "toLowerCase_ascii (str ''myTest7'') \<notin> set WEAK_PASSWORDS"
    by code_simp
  have "weakLoop WEAK_PASSWORDS (toLowerCase_ascii (str ''myTest7'')) = 15"
    by code_simp
  then have b2: "contains_listed WEAK_PASSWORDS (toLowerCase_ascii (str ''myTest7''))"
    by (simp add: weakLoop_15_iff)
  have c1: "toLowerCase_ascii (str ''Tr0ub4dor&9Zx'') \<notin> set WEAK_PASSWORDS"
    by code_simp
  have "weakLoop WEAK_PASSWORDS (toLowerCase_ascii (str ''Tr0ub4dor&9Zx'')) = 0"
    by code_simp
  then have c2: "\<not> contains_listed WEAK_PASSWORDS (toLowerCase_ascii (str ''Tr0ub4dor&9Zx''))"
    by (simp add: weakLoop_0_iff)
  show ?thesis
    using not_weak_criterion [OF ne(1), of toLowerCase_ascii]
      not_weak_criterion [OF ne(2), of toLowerCase_ascii]
      not_weak_criterion [OF ne(3), of toLowerCase_ascii]
      ne a b1 b2 c1 c2
    by simp
qed

text \<open>
  C6, as the specification states it, fails: the tilde is outside a-z, A-Z and 0-9,
  and the special-character evaluator returns 0 on the password that consists of it,
  in both variants, while the variety bonus counts it as a fourth class.
\<close>

theorem special_chars_outside_alnum_counterexample:
  "str ''~'' = [126] \<and>
   class_non_alnum 126 \<and>
   hasSpecialChars (str ''~'') = 0 \<and>
   hasSpecialChars_en (str ''~'') = 0 \<and>
   checkCharacterVariety (str ''aB3~'') = 10 \<and>
   hasSpecialChars (str ''aB3~'') = 0"
  by code_simp

text \<open>
  C6, amended. The special-character rule evaluator returns 15 if and only if the
  password contains at least one of the thirty characters
  ! @ # $ % ^ & * ( ) _ + - = [ ] { } ; ' : " \ | , . < > / ?
  and returns 0 otherwise, for every input string. Each of the thirty lies outside
  a-z, A-Z and 0-9, so a result of 15 implies a character outside the alphanumeric
  set; other characters outside that set do not count.
\<close>

theorem special_chars_rule:
  "hasSpecialChars p = (if \<exists>c \<in> set p. c \<in> special_chars then 15 else 0) \<and>
   hasSpecialChars_en p = (if \<exists>c \<in> set p. c \<in> special_chars then 15 else 0) \<and>
   (hasSpecialChars p = 15 \<longrightarrow> (\<exists>c \<in> set p. class_non_alnum c)) \<and>
   (c \<in> special_chars \<longrightarrow> class_non_alnum c)"
  using special_is_non_alnum
  by (auto simp: hasSpecialChars_def hasSpecialChars_en_def regex_test_def
      class_special_chars)

theorem special_chars_rule_witness:
  "38 \<in> set (str ''a&b'') \<and> 38 \<in> special_chars \<and> class_non_alnum 38 \<and>
   hasSpecialChars (str ''a&b'') = 15 \<and> hasSpecialChars_en (str ''a&b'') = 15 \<and>
   hasSpecialChars (str ''~'') = 0"
proof -
  have a: "38 \<in> set (str ''a&b'')"
    by (simp add: str_def)
  have b: "38 \<in> special_chars"
    by (simp add: special_chars_def str_def)
  have c: "\<not> (\<exists>c \<in> set (str ''~''). c \<in> special_chars)"
    by (simp add: special_chars_def str_def)
  show ?thesis
    using special_chars_rule [of "str ''a&b''" 38] special_chars_rule [of "str ''~''" 38] a b c
    by auto
qed

text \<open>
  C7, as the specification states it, fails: the two variants do not consult the
  same lists. charlie is in the weak-password list of Validators.ts and not in the
  local list of the self-contained variant, so its weak penalty is 20 in one variant
  and 0 in the other and the criterion notWeakPassword differs; pQrStU lowers to the
  pattern pqrstu, which only Validators.ts lists, so its sequential penalty is 10 in
  one variant and 0 in the other and the criterion noSequentialChars differs.
\<close>

theorem variants_same_lists_counterexample:
  "checkWeakPassword toLowerCase_ascii (str ''charlie'') = 20 \<and>
   checkWeakPassword_en toLowerCase_ascii (str ''charlie'') = 0 \<and>
   \<not> c_notWeakPassword (criteria (analyze_tr toLowerCase_ascii (str ''charlie''))) \<and>
   c_notWeakPassword (criteria (analyze_en toLowerCase_ascii (str ''charlie''))) \<and>
   checkSequentialChars toLowerCase_ascii (str ''pQrStU'') = 10 \<and>
   checkSequentialChars_en toLowerCase_ascii (str ''pQrStU'') = 0 \<and>
   \<not> c_noSequentialChars (criteria (analyze_tr toLowerCase_ascii (str ''pQrStU''))) \<and>
   c_noSequentialChars (criteria (analyze_en toLowerCase_ascii (str ''pQrStU''))) \<and>
   WEAK_PASSWORDS \<noteq> weakPasswords_en \<and>
   SEQUENTIAL_PATTERNS \<noteq> sequentialPatterns_en"
  by code_simp

text \<open>
  C7, amended. The two variants have the same length, lowercase, uppercase, digit,
  special-character, repeating and variety evaluators, and the same algorithm for the
  weak and the sequential penalty (the same loops, each variant running them over its
  own lists: exact match 20, else a contained entry of at least 4 characters 15, else
  0; 10 for each contained pattern, 5 for the first run of three codes, capped at 15),
  but not the same lists: the local lists of the
  self-contained variant are the first 20 of the 31 weak passwords and the first 21
  of the 27 sequential patterns of Validators.ts. Hence, for every password, the five
  presence and length criteria and the repeating criterion agree, the weak and the
  sequential penalty of the self-contained variant are at most those of the variant
  over Validators.ts, a penalty criterion that holds in the latter holds in the
  former, and the score of the latter is at most the score of the former.
\<close>

theorem variants_agree_up_to_lists:
  "checkLength_en p = checkLength p \<and>
   hasLowercase_en p = hasLowercase p \<and>
   hasUppercase_en p = hasUppercase p \<and>
   hasNumbers_en p = hasNumbers p \<and>
   hasSpecialChars_en p = hasSpecialChars p \<and>
   checkRepeatingChars_en p = checkRepeatingChars p \<and>
   checkCharacterVariety_en p = checkCharacterVariety p \<and>
   WEAK_PASSWORDS = weakPasswords_en @ extra_weak_passwords \<and>
   SEQUENTIAL_PATTERNS = sequentialPatterns_en @ extra_sequential_patterns \<and>
   checkWeakPassword_en lc p \<le> checkWeakPassword lc p \<and>
   checkSequentialChars_en lc p \<le> checkSequentialChars lc p \<and>
   c_length (criteria (analyze_en lc p)) = c_length (criteria (analyze_tr lc p)) \<and>
   c_hasLowercase (criteria (analyze_en lc p)) = c_hasLowercase (criteria (analyze_tr lc p)) \<and>
   c_hasUppercase (criteria (analyze_en lc p)) = c_hasUppercase (criteria (analyze_tr lc p)) \<and>
   c_hasNumbers (criteria (analyze_en lc p)) = c_hasNumbers (criteria (analyze_tr lc p)) \<and>
   c_hasSpecialChars (criteria (analyze_en lc p)) =
     c_hasSpecialChars (criteria (analyze_tr lc p)) \<and>
   c_noRepeatingChars (criteria (analyze_en lc p)) =
     c_noRepeatingChars (criteria (analyze_tr lc p)) \<and>
   (c_notWeakPassword (criteria (analyze_tr lc p)) \<longrightarrow>
      c_notWeakPassword (criteria (analyze_en lc p))) \<and>
   (c_noSequentialChars (criteria (analyze_tr lc p)) \<longrightarrow>
      c_noSequentialChars (criteria (analyze_en lc p))) \<and>
   score (analyze_tr lc p) \<le> score (analyze_en lc p) \<and>
   weakLoop_en ws lp = weakLoop ws lp \<and>
   patternLoop_en ps lp penalty = patternLoop ps lp penalty \<and>
   runLoop_en p i penalty = runLoop p i penalty \<and>
   checkWeakPassword_en lc p =
     (if lc p \<in> set weakPasswords_en then 20 else weakLoop weakPasswords_en (lc p)) \<and>
   checkWeakPassword lc p =
     (if lc p \<in> set WEAK_PASSWORDS then 20 else weakLoop WEAK_PASSWORDS (lc p)) \<and>
   checkSequentialChars_en lc p =
     min (runLoop p 0 (patternLoop sequentialPatterns_en (lc p) 0)) 15 \<and>
   checkSequentialChars lc p =
     min (runLoop p 0 (patternLoop SEQUENTIAL_PATTERNS (lc p) 0)) 15 \<and>
   checkWeakPassword_en lc p =
     (if lc p \<in> set weakPasswords_en then 20
      else if contains_listed weakPasswords_en (lc p) then 15 else 0) \<and>
   checkWeakPassword lc p =
     (if lc p \<in> set WEAK_PASSWORDS then 20
      else if contains_listed WEAK_PASSWORDS (lc p) then 15 else 0)"
proof -
  note eqs = checkLength_en_eq hasLowercase_en_eq hasUppercase_en_eq hasNumbers_en_eq
    hasSpecialChars_en_eq checkRepeatingChars_en_eq checkCharacterVariety_en_eq
  have w: "checkWeakPassword_en lc p \<le> checkWeakPassword lc p"
    by (rule weak_en_le)
  have s: "checkSequentialChars_en lc p \<le> checkSequentialChars lc p"
    by (rule sequential_en_le)
  have w0: "checkWeakPassword lc p = 0 \<Longrightarrow> checkWeakPassword_en lc p = 0"
    using w checkWeakPassword_en_cases [of lc p] by auto
  have s0: "checkSequentialChars lc p = 0 \<Longrightarrow> checkSequentialChars_en lc p = 0"
    using s checkSequentialChars_en_range [of lc p] by auto
  have crit:
    "c_length (criteria (analyze_en lc p)) = c_length (criteria (analyze_tr lc p)) \<and>
     c_hasLowercase (criteria (analyze_en lc p)) = c_hasLowercase (criteria (analyze_tr lc p)) \<and>
     c_hasUppercase (criteria (analyze_en lc p)) = c_hasUppercase (criteria (analyze_tr lc p)) \<and>
     c_hasNumbers (criteria (analyze_en lc p)) = c_hasNumbers (criteria (analyze_tr lc p)) \<and>
     c_hasSpecialChars (criteria (analyze_en lc p)) =
       c_hasSpecialChars (criteria (analyze_tr lc p)) \<and>
     c_noRepeatingChars (criteria (analyze_en lc p)) =
       c_noRepeatingChars (criteria (analyze_tr lc p)) \<and>
     (c_notWeakPassword (criteria (analyze_tr lc p)) \<longrightarrow>
        c_notWeakPassword (criteria (analyze_en lc p))) \<and>
     (c_noSequentialChars (criteria (analyze_tr lc p)) \<longrightarrow>
        c_noSequentialChars (criteria (analyze_en lc p)))"
  proof (cases "p = []")
    case True
    then show ?thesis
      using criteria_empty [of lc] by simp
  next
    case False
    then show ?thesis
      using w0 s0 by (simp add: criteria_en criteria_tr eqs)
  qed
  have "rawScore (runAllValidations lc p) \<le> rawScore (runAllValidations_en lc p)"
    using w s by (simp add: rawScore_def runAllValidations_def runAllValidations_en_def eqs)
  then have sc: "score (analyze_tr lc p) \<le> score (analyze_en lc p)"
    using clamp_mono by (simp add: score_en score_tr)
  have loops: "weakLoop_en ws lp = weakLoop ws lp"
    "patternLoop_en ps lp penalty = patternLoop ps lp penalty"
    "runLoop_en p i penalty = runLoop p i penalty"
    by (simp_all add: weakLoop_en_eq patternLoop_en_eq runLoop_en_eq)
  have alg_en: "checkWeakPassword_en lc p =
      (if lc p \<in> set weakPasswords_en then 20 else weakLoop weakPasswords_en (lc p))"
    "checkSequentialChars_en lc p =
      min (runLoop p 0 (patternLoop sequentialPatterns_en (lc p) 0)) 15"
    by (simp_all add: checkWeakPassword_en_def checkSequentialChars_en_def Let_def
        weakLoop_en_eq patternLoop_en_eq runLoop_en_eq)
  have alg_tr: "checkWeakPassword lc p =
      (if lc p \<in> set WEAK_PASSWORDS then 20 else weakLoop WEAK_PASSWORDS (lc p))"
    "checkSequentialChars lc p =
      min (runLoop p 0 (patternLoop SEQUENTIAL_PATTERNS (lc p) 0)) 15"
    by (simp_all add: checkWeakPassword_def checkSequentialChars_def Let_def)
  have sem_en: "checkWeakPassword_en lc p =
      (if lc p \<in> set weakPasswords_en then 20
       else if contains_listed weakPasswords_en (lc p) then 15 else 0)"
    using weakLoop_15_iff [of weakPasswords_en "lc p"]
      weakLoop_0_iff [of weakPasswords_en "lc p"]
    by (simp add: alg_en)
  have sem_tr: "checkWeakPassword lc p =
      (if lc p \<in> set WEAK_PASSWORDS then 20
       else if contains_listed WEAK_PASSWORDS (lc p) then 15 else 0)"
    using weakLoop_15_iff [of WEAK_PASSWORDS "lc p"] weakLoop_0_iff [of WEAK_PASSWORDS "lc p"]
    by (simp add: alg_tr)
  have first: "checkLength_en p = checkLength p \<and>
      hasLowercase_en p = hasLowercase p \<and>
      hasUppercase_en p = hasUppercase p \<and>
      hasNumbers_en p = hasNumbers p \<and>
      hasSpecialChars_en p = hasSpecialChars p \<and>
      checkRepeatingChars_en p = checkRepeatingChars p \<and>
      checkCharacterVariety_en p = checkCharacterVariety p \<and>
      WEAK_PASSWORDS = weakPasswords_en @ extra_weak_passwords \<and>
      SEQUENTIAL_PATTERNS = sequentialPatterns_en @ extra_sequential_patterns"
    by (simp add: eqs lists_extend)
  show ?thesis
    using first w s crit sc loops alg_en alg_tr sem_en sem_tr by blast
qed

theorem variants_agree_up_to_lists_witness:
  "checkWeakPassword_en toLowerCase_ascii (str ''password'') = 20 \<and>
   checkWeakPassword toLowerCase_ascii (str ''password'') = 20 \<and>
   checkSequentialChars_en toLowerCase_ascii (str ''abcdef'') = 15 \<and>
   checkSequentialChars toLowerCase_ascii (str ''abcdef'') = 15 \<and>
   checkWeakPassword_en toLowerCase_ascii (str ''charlie'') = 0 \<and>
   checkWeakPassword toLowerCase_ascii (str ''charlie'') = 20 \<and>
   score (analyze_tr toLowerCase_ascii (str ''charlie'')) = 0 \<and>
   score (analyze_en toLowerCase_ascii (str ''charlie'')) = 20 \<and>
   score (analyze_tr toLowerCase_ascii (str ''charlie'')) \<le>
     score (analyze_en toLowerCase_ascii (str ''charlie'')) \<and>
   c_hasLowercase (criteria (analyze_en toLowerCase_ascii (str ''charlie''))) =
     c_hasLowercase (criteria (analyze_tr toLowerCase_ascii (str ''charlie'')))"
proof -
  have v: "checkWeakPassword_en toLowerCase_ascii (str ''charlie'') = 0"
    "checkWeakPassword toLowerCase_ascii (str ''charlie'') = 20"
    "score (analyze_tr toLowerCase_ascii (str ''charlie'')) = 0"
    "score (analyze_en toLowerCase_ascii (str ''charlie'')) = 20"
    "checkWeakPassword_en toLowerCase_ascii (str ''password'') = 20"
    "checkWeakPassword toLowerCase_ascii (str ''password'') = 20"
    "checkSequentialChars_en toLowerCase_ascii (str ''abcdef'') = 15"
    "checkSequentialChars toLowerCase_ascii (str ''abcdef'') = 15"
    by code_simp+
  have t: "score (analyze_tr toLowerCase_ascii (str ''charlie'')) \<le>
      score (analyze_en toLowerCase_ascii (str ''charlie'')) \<and>
    c_hasLowercase (criteria (analyze_en toLowerCase_ascii (str ''charlie''))) =
      c_hasLowercase (criteria (analyze_tr toLowerCase_ascii (str ''charlie'')))"
    using variants_agree_up_to_lists [of "str ''charlie''" toLowerCase_ascii] by blast
  show ?thesis
    using t v by simp
qed

text \<open>
  C8. For every non-empty password the feedback list and the suggestion list of the
  analysis are non-empty and in the fixed rule order. The feedback is the message of
  the length band, then the messages of the unmet criteria in the order lowercase,
  uppercase, digit, special, repeating, weak, sequential, then the closing message
  chosen by the number of criteria met. The suggestions are the header if the score is
  below 50, then the bullets of the unmet criteria in the order length, lowercase,
  uppercase, digit, special, repeating, weak, sequential, then the closing messages
  for a score of at least 70 and of at least 85. Both variants.
\<close>

theorem feedback_and_suggestions_order:
  assumes "p \<noteq> []"
  shows "feedback (analyze_en lc p) \<noteq> [] \<and> suggestions (analyze_en lc p) \<noteq> [] \<and>
         feedback (analyze_tr lc p) \<noteq> [] \<and> suggestions (analyze_tr lc p) \<noteq> [] \<and>
         hd (feedback (analyze_en lc p)) = lengthMessage_en p \<and>
         hd (feedback (analyze_tr lc p)) = lengthMessage_tr p \<and>
         feedback (analyze_en lc p) =
           lengthMessage_en p # unmet (feedbackTable_en (criteria (analyze_en lc p))) @
           (if 6 \<le> positiveCount (criteria (analyze_en lc p)) then [fb_excellent_en]
            else if 4 \<le> positiveCount (criteria (analyze_en lc p)) then [fb_goodStart_en]
            else []) \<and>
         feedback (analyze_tr lc p) =
           lengthMessage_tr p # unmet (feedbackTable_tr (criteria (analyze_tr lc p))) @
           (if 6 \<le> positiveCount (criteria (analyze_tr lc p)) then [fb_excellent_tr]
            else if 4 \<le> positiveCount (criteria (analyze_tr lc p)) then [fb_goodStart_tr]
            else []) \<and>
         suggestions (analyze_en lc p) =
           (if score (analyze_en lc p) < 50 then [sg_header_en] else []) @
           unmet (suggestionTable_en (criteria (analyze_en lc p))) @
           (if 70 \<le> score (analyze_en lc p) then [sg_goodJob_en] else []) @
           (if 85 \<le> score (analyze_en lc p) then [sg_excellent_en] else []) \<and>
         suggestions (analyze_tr lc p) =
           (if score (analyze_tr lc p) < 50 then [sg_header_tr] else []) @
           unmet (suggestionTable_tr (criteria (analyze_tr lc p))) @
           (if 70 \<le> score (analyze_tr lc p) then [sg_goodJob_tr] else []) @
           (if 85 \<le> score (analyze_tr lc p) then [sg_excellent_tr] else [])"
proof -
  have f_en: "feedback (analyze_en lc p) =
      lengthMessage_en p # unmet (feedbackTable_en (criteria (analyze_en lc p))) @
      (if 6 \<le> positiveCount (criteria (analyze_en lc p)) then [fb_excellent_en]
       else if 4 \<le> positiveCount (criteria (analyze_en lc p)) then [fb_goodStart_en]
       else [])"
    using feedback_en [OF assms, of lc] by (simp only: generateFeedback_en_table)
  have f_tr: "feedback (analyze_tr lc p) =
      lengthMessage_tr p # unmet (feedbackTable_tr (criteria (analyze_tr lc p))) @
      (if 6 \<le> positiveCount (criteria (analyze_tr lc p)) then [fb_excellent_tr]
       else if 4 \<le> positiveCount (criteria (analyze_tr lc p)) then [fb_goodStart_tr]
       else [])"
    using feedback_tr [OF assms, of lc] by (simp only: generateFeedback_tr_table)
  have s_en: "suggestions (analyze_en lc p) =
      (if score (analyze_en lc p) < 50 then [sg_header_en] else []) @
      unmet (suggestionTable_en (criteria (analyze_en lc p))) @
      (if 70 \<le> score (analyze_en lc p) then [sg_goodJob_en] else []) @
      (if 85 \<le> score (analyze_en lc p) then [sg_excellent_en] else [])"
    using suggestions_en [OF assms, of lc] by (simp only: generateSuggestions_en_table)
  have s_tr: "suggestions (analyze_tr lc p) =
      (if score (analyze_tr lc p) < 50 then [sg_header_tr] else []) @
      unmet (suggestionTable_tr (criteria (analyze_tr lc p))) @
      (if 70 \<le> score (analyze_tr lc p) then [sg_goodJob_tr] else []) @
      (if 85 \<le> score (analyze_tr lc p) then [sg_excellent_tr] else [])"
    using suggestions_tr [OF assms, of lc] by (simp only: generateSuggestions_tr_table)
  have ne: "feedback (analyze_en lc p) \<noteq> []" "feedback (analyze_tr lc p) \<noteq> []"
    "hd (feedback (analyze_en lc p)) = lengthMessage_en p"
    "hd (feedback (analyze_tr lc p)) = lengthMessage_tr p"
    by (simp_all add: f_en f_tr)
  show ?thesis
    using ne suggestions_en_nonempty [OF assms, of lc] suggestions_tr_nonempty [OF assms, of lc]
      f_en f_tr s_en s_tr
    by blast
qed

theorem feedback_and_suggestions_order_witness:
  "str ''Kq7,mwxv'' \<noteq> [] \<and>
   score (analyze_en toLowerCase_ascii (str ''Kq7,mwxv'')) = 75 \<and>
   feedback (analyze_en toLowerCase_ascii (str ''Kq7,mwxv'')) =
     [str ''Password is medium length (8 characters). 12+ characters is more secure.'',
      str ''Excellent! Your password meets most security criteria.''] \<and>
   suggestions (analyze_en toLowerCase_ascii (str ''Kq7,mwxv'')) =
     [str ''Good job! Your password has decent security.''] \<and>
   str ''12345'' \<noteq> [] \<and>
   suggestions (analyze_en toLowerCase_ascii (str ''12345'')) =
     [sg_header_en, sg_length_en, sg_lowercase_en, sg_uppercase_en, sg_specialChars_en,
      sg_weakPassword_en, sg_sequentialChars_en] \<and>
   hd (feedback (analyze_tr toLowerCase_ascii (str ''12345''))) = fb_tooShort_tr 5"
proof -
  have ne: "str ''Kq7,mwxv'' \<noteq> []" "str ''12345'' \<noteq> []"
    by (simp_all add: str_def)
  have l: "length (str ''Kq7,mwxv'') = 8" "length (str ''12345'') = 5"
    by (simp_all add: str_def)
  have c1: "criteria (analyze_en toLowerCase_ascii (str ''Kq7,mwxv'')) =
      \<lparr> c_length = True, c_hasLowercase = True, c_hasUppercase = True, c_hasNumbers = True,
        c_hasSpecialChars = True, c_noRepeatingChars = True, c_notWeakPassword = True,
        c_noSequentialChars = True \<rparr>"
    by code_simp
  have c2: "criteria (analyze_en toLowerCase_ascii (str ''12345'')) =
      \<lparr> c_length = False, c_hasLowercase = False, c_hasUppercase = False, c_hasNumbers = True,
        c_hasSpecialChars = False, c_noRepeatingChars = True, c_notWeakPassword = False,
        c_noSequentialChars = False \<rparr>"
    by code_simp
  have s: "score (analyze_en toLowerCase_ascii (str ''Kq7,mwxv'')) = 75"
    "score (analyze_en toLowerCase_ascii (str ''12345'')) = 0"
    by code_simp+
  have m: "fb_mediumLength_en 8 =
      str ''Password is medium length (8 characters). 12+ characters is more secure.''"
    by (simp add: fb_mediumLength_en_def str_def)
  show ?thesis
    using feedback_and_suggestions_order [OF ne(1), of toLowerCase_ascii]
      feedback_and_suggestions_order [OF ne(2), of toLowerCase_ascii] ne l
    by (simp add: c1 c2 s m lengthMessage_en_def lengthMessage_tr_def feedbackTable_en_def
        suggestionTable_en_def unmet_Cons unmet_Nil positiveCount_def criteria_values_def
        fb_excellent_en_def sg_goodJob_en_def)
qed

text \<open>
  C9. The level EMPTY is not reserved for the empty password: on a host whose
  \<open>toLowerCase\<close> leaves digits as they are, the five-character password 12345 has the
  bonuses 5 (length) and 10 (digit), no variety bonus, the penalties 20 (exact match
  in the weak list) and 15 (sequential, at its cap), hence the score 0 after the clamp
  and the level EMPTY. Both variants.
\<close>

theorem nonempty_password_with_level_empty:
  assumes "lc (str ''12345'') = str ''12345''"
  shows "str ''12345'' \<noteq> [] \<and>
         score (analyze_en lc (str ''12345'')) = 0 \<and>
         level (analyze_en lc (str ''12345'')) = EMPTY \<and>
         score (analyze_tr lc (str ''12345'')) = 0 \<and>
         level (analyze_tr lc (str ''12345'')) = EMPTY \<and>
         runAllValidations_en lc (str ''12345'') =
           \<lparr> v_length = 5, v_hasLowercase = 0, v_hasUppercase = 0, v_hasNumbers = 10,
             v_hasSpecialChars = 0, v_repeatingCharsPenalty = 0, v_weakPasswordPenalty = 20,
             v_sequentialCharsPenalty = 15, v_varietyBonus = 0 \<rparr> \<and>
         runAllValidations lc (str ''12345'') = runAllValidations_en lc (str ''12345'')"
proof -
  have l: "toLowerCase_ascii (str ''12345'') = str ''12345''"
    by code_simp
  have en: "analyze_en lc (str ''12345'') = analyze_en toLowerCase_ascii (str ''12345'')"
    by (rule analyze_en_cong) (simp add: assms l)
  have tr: "analyze_tr lc (str ''12345'') = analyze_tr toLowerCase_ascii (str ''12345'')"
    by (rule analyze_tr_cong) (simp add: assms l)
  have v_en: "runAllValidations_en lc (str ''12345'') =
      runAllValidations_en toLowerCase_ascii (str ''12345'')"
    by (simp add: runAllValidations_en_def checkWeakPassword_en_def
        checkSequentialChars_en_def assms l)
  have v_tr: "runAllValidations lc (str ''12345'') =
      runAllValidations toLowerCase_ascii (str ''12345'')"
    by (simp add: runAllValidations_def checkWeakPassword_def checkSequentialChars_def assms l)
  have 1: "str ''12345'' \<noteq> []"
    by (simp add: str_def)
  have 2: "score (analyze_en toLowerCase_ascii (str ''12345'')) = 0"
    by code_simp
  have 3: "level (analyze_en toLowerCase_ascii (str ''12345'')) = EMPTY"
    by code_simp
  have 4: "score (analyze_tr toLowerCase_ascii (str ''12345'')) = 0"
    by code_simp
  have 5: "level (analyze_tr toLowerCase_ascii (str ''12345'')) = EMPTY"
    by code_simp
  have 6: "runAllValidations_en toLowerCase_ascii (str ''12345'') =
           \<lparr> v_length = 5, v_hasLowercase = 0, v_hasUppercase = 0, v_hasNumbers = 10,
             v_hasSpecialChars = 0, v_repeatingCharsPenalty = 0, v_weakPasswordPenalty = 20,
             v_sequentialCharsPenalty = 15, v_varietyBonus = 0 \<rparr>"
    by code_simp
  have 7: "runAllValidations toLowerCase_ascii (str ''12345'') =
           runAllValidations_en toLowerCase_ascii (str ''12345'')"
    by code_simp
  show ?thesis
    using 1 2 3 4 5 6 7 by (simp add: en tr v_en v_tr)
qed

theorem nonempty_password_with_level_empty_witness:
  "toLowerCase_ascii (str ''12345'') = str ''12345'' \<and>
   length (str ''12345'') = 5 \<and>
   score (analyze_en toLowerCase_ascii (str ''12345'')) = 0 \<and>
   level (analyze_en toLowerCase_ascii (str ''12345'')) = EMPTY \<and>
   score (analyze_tr toLowerCase_ascii (str ''12345'')) = 0 \<and>
   level (analyze_tr toLowerCase_ascii (str ''12345'')) = EMPTY"
proof -
  have l: "toLowerCase_ascii (str ''12345'') = str ''12345''"
    by code_simp
  have n: "length (str ''12345'') = 5"
    by (simp add: str_def)
  show ?thesis
    using nonempty_password_with_level_empty [of toLowerCase_ascii, OF l] l n by simp
qed

text \<open>
  C10. No password scores more than 85: the six bonuses are at most 30, 10, 10, 10, 15
  and 10, the three penalties are never negative, so the sum before the clamp is at
  most 85, the upper bound 100 of the clamp never takes effect, and no score lies in
  86..100. Both variants.
\<close>

theorem score_at_most_85:
  "score (analyze_en lc p) \<le> 85 \<and> score (analyze_tr lc p) \<le> 85 \<and>
   rawScore (runAllValidations_en lc p) \<le> 85 \<and> rawScore (runAllValidations lc p) \<le> 85 \<and>
   min (rawScore (runAllValidations_en lc p)) 100 = rawScore (runAllValidations_en lc p) \<and>
   min (rawScore (runAllValidations lc p)) 100 = rawScore (runAllValidations lc p) \<and>
   score (analyze_en lc p) \<notin> {86..100} \<and> score (analyze_tr lc p) \<notin> {86..100}"
  using rawScore_en_le [of lc p] rawScore_tr_le [of lc p]
  by (auto simp: score_en score_tr)

theorem score_at_most_85_witness:
  "score (analyze_en toLowerCase_ascii (str ''Tr0ub4dor&9Zx'')) = 85 \<and>
   score (analyze_tr toLowerCase_ascii (str ''Tr0ub4dor&9Zx'')) = 85 \<and>
   score (analyze_en toLowerCase_ascii (str ''Tr0ub4dor&9Zx'')) \<notin> {86..100}"
proof -
  have e: "score (analyze_en toLowerCase_ascii (str ''Tr0ub4dor&9Zx'')) = 85"
    "score (analyze_tr toLowerCase_ascii (str ''Tr0ub4dor&9Zx'')) = 85"
    by code_simp+
  show ?thesis
    using score_at_most_85 [of toLowerCase_ascii "str ''Tr0ub4dor&9Zx''"] e by simp
qed

end
